theory Spec2Isabelle
  imports Complex_Main
begin

section \<open>DisCor (deep\_control/discor.py): data model\<close>

text \<open>
  Conventions of the embedding.
  \<^item> An entry of an observation or of an action is a float (\<open>fl\<close>): a finite value, an
    infinity or NaN. These are the values that pass through \<open>process_act\<close> and that the
    networks and the environment exchange. Rounding of finite values is not modelled.
  \<^item> The scalars the update step computes with (rewards, done flags, critic and delta
    outputs, log-probabilities, weights, parameters, \<open>log_alpha\<close>, temperatures) are
    \<^typ>\<open>real\<close>; rounding, infinities and NaN are not modelled there.
  \<^item> A single observation or action is a vector (\<open>vec\<close>); a tensor of shape \<open>(B, d)\<close>
    is a list of \<open>B\<close> rows; a column tensor of shape \<open>(B, 1)\<close> is a list of \<open>B\<close> reals;
    the one-entry tensors \<open>log_alpha\<close>, \<open>temp1\<close> and \<open>temp2\<close> are reals.
  \<^item> The network classes (module \<open>nets\<close>), the distribution objects they return, the
    optimizers and autograd (\<open>torch\<close>), the replay buffer (\<open>replay\<close>), the environment
    and the helpers of \<open>run\<close> are not part of the two source files. They are taken as
    parameters, collected in the record \<open>ext\<close>. The helpers \<open>utils.hard_update\<close> and
    \<open>utils.soft_update\<close> are modelled from the specification.
  \<^item> In-place mutation is explicit state passing; a raised exception is the left
    summand, carrying the error and the state as it was left when the error was raised.
  \<^item> Device transfers (\<open>to\<close>, \<open>cpu\<close>), the files written by \<open>save\<close> and read by \<open>load\<close>,
    the creation of the run directory and the progress bar have no counterpart: they
    change no value the functions below compute with. The scalars logged under
    \<open>"return"\<close> and the last checkpoint are kept in the loop's state.
\<close>

datatype fl = Fin real | PInf | NInf | NaN

type_synonym vec = "fl list"
type_synonym params = "real list"

text \<open>An \<open>nn.Module\<close>: its flattened parameter vector and its train/eval flag.\<close>

record module =
  weights :: params
  training :: bool

text \<open>\<open>class DisCorAgent\<close>: five function approximators.\<close>

record discor_agent =
  actor :: module
  critic1 :: module
  critic2 :: module
  delta1 :: module
  delta2 :: module

text \<open>
  One row of a sampled batch: \<open>(state, action, reward, next_state, done)\<close>, with \<open>done\<close>
  the float the batch tensor holds. The five tensors \<open>buffer.sample\<close> returns are the
  five columns of a list of such rows, so they are aligned by construction.
\<close>

record transition =
  t_state :: vec
  t_action :: vec
  t_reward :: real
  t_next_state :: vec
  t_done :: real

text \<open>
  The two buffer classes of module \<open>replay\<close>; \<open>isinstance(buffer,
  replay.PrioritizedReplayBuffer)\<close> is the test \<open>kind buffer = PrioritizedReplayBuffer\<close>.
\<close>

datatype buffer_kind = ReplayBuffer | PrioritizedReplayBuffer

record buffer =
  kind :: buffer_kind
  storage :: "transition list"

datatype error = AssertionError | ValueError | ZeroDivisionError

text \<open>The keyword arguments of \<open>discor\<close> (\<open>name\<close> and \<open>verbosity\<close> only affect display).\<close>

record config =
  cfg_num_steps :: int
  cfg_transitions_per_step :: int
  cfg_max_episode_steps :: int
  cfg_batch_size :: int
  cfg_tau :: real
  cfg_actor_lr :: real
  cfg_critic_lr :: real
  cfg_alpha_lr :: real
  cfg_delta_lr :: real
  cfg_gamma :: real
  cfg_eval_interval :: int
  cfg_eval_episodes :: int
  cfg_warmup_steps :: int
  cfg_actor_clip :: "real option"
  cfg_critic_clip :: "real option"
  cfg_delta_clip :: "real option"
  cfg_actor_l2 :: real
  cfg_critic_l2 :: real
  cfg_delta_l2 :: real
  cfg_target_delay :: int
  cfg_actor_delay :: int
  cfg_save_interval :: int
  cfg_render :: bool
  cfg_save_to_disk :: bool
  cfg_log_to_disk :: bool
  cfg_gradient_updates_per_step :: int
  cfg_init_alpha :: real
  cfg_init_temp :: real
  cfg_infinite_bootstrap :: bool

text \<open>
  The external collaborators. \<open>'d\<close> is the type of action distributions, \<open>'r\<close> the state
  of the random number generators, \<open>'o\<close> the internal state of an optimizer and \<open>'e\<close> an
  environment. A network's forward pass takes the module and a batch; \<open>grad f p\<close> is the
  gradient autograd computes for the scalar loss \<open>f\<close> at the parameters \<open>p\<close>;
  \<open>opt_step\<close> is one \<open>optimizer.step()\<close> on parameters and their gradients.
  \<open>add_hparams\<close> is \<open>SummaryWriter.add_hparams(locals(), {})\<close>, which returns nothing or
  raises; the tensorboard writer of \<open>torch\<close> raises \<open>ValueError\<close> for a value that is not
  a number, a string, a boolean or a tensor, and \<open>locals()\<close> holds the agent, the buffer
  and the environments.
\<close>

record ('d, 'r, 'o, 'e) ext =
  actor_fwd :: "module \<Rightarrow> vec list \<Rightarrow> 'd"
  critic_fwd :: "module \<Rightarrow> vec list \<Rightarrow> vec list \<Rightarrow> real list"
  delta_fwd :: "module \<Rightarrow> vec list \<Rightarrow> vec list \<Rightarrow> real list"
  dist_mean :: "'d \<Rightarrow> vec list"
  dist_sample :: "'d \<Rightarrow> 'r \<Rightarrow> vec list \<times> 'r"
  dist_rsample :: "'d \<Rightarrow> 'r \<Rightarrow> vec list \<times> 'r"
  dist_log_prob :: "'d \<Rightarrow> vec list \<Rightarrow> real list list"
  grad :: "(params \<Rightarrow> real) \<Rightarrow> params \<Rightarrow> params"
  clip_grad_norm :: "params \<Rightarrow> real \<Rightarrow> params"
  opt_step :: "'o \<Rightarrow> params \<Rightarrow> params \<Rightarrow> 'o \<times> params"
  buffer_sample :: "buffer \<Rightarrow> int \<Rightarrow> 'r \<Rightarrow> transition list \<times> 'r"
  buffer_push :: "buffer \<Rightarrow> vec \<Rightarrow> vec \<Rightarrow> real \<Rightarrow> vec \<Rightarrow> bool \<Rightarrow> buffer"
  env_reset :: "'e \<Rightarrow> vec \<times> 'e"
  env_step :: "'e \<Rightarrow> vec \<Rightarrow> (vec \<times> real \<times> bool) \<times> 'e"
  action_dim :: "'e \<Rightarrow> int"
  adam_init :: "params \<Rightarrow> real \<Rightarrow> real \<Rightarrow> real \<times> real \<Rightarrow> 'o"
  warmup_buffer :: "buffer \<Rightarrow> 'e \<Rightarrow> int \<Rightarrow> int \<Rightarrow> 'r \<Rightarrow> (buffer \<times> 'e) \<times> 'r"
  evaluate_agent :: "discor_agent \<Rightarrow> 'e \<Rightarrow> int \<Rightarrow> int \<Rightarrow> bool \<Rightarrow> real \<times> 'e"
  add_hparams :: "config \<Rightarrow> error option"

section \<open>Tensor arithmetic on column tensors\<close>

definition t_add :: "real list \<Rightarrow> real list \<Rightarrow> real list" where
  "t_add xs ys = map2 (+) xs ys"

definition t_sub :: "real list \<Rightarrow> real list \<Rightarrow> real list" where
  "t_sub xs ys = map2 (-) xs ys"

definition t_mul :: "real list \<Rightarrow> real list \<Rightarrow> real list" where
  "t_mul xs ys = map2 (*) xs ys"

definition t_min :: "real list \<Rightarrow> real list \<Rightarrow> real list" where
  "t_min xs ys = map2 min xs ys"

definition s_mul :: "real \<Rightarrow> real list \<Rightarrow> real list" where
  "s_mul c xs = map (\<lambda>x. c * x) xs"

definition mul_s :: "real list \<Rightarrow> real \<Rightarrow> real list" where
  "mul_s xs c = map (\<lambda>x. x * c) xs"

definition div_s :: "real list \<Rightarrow> real \<Rightarrow> real list" where
  "div_s xs c = map (\<lambda>x. x / c) xs"

definition s_sub :: "real \<Rightarrow> real list \<Rightarrow> real list" where
  "s_sub c xs = map (\<lambda>x. c - x) xs"

definition t_add_s :: "real list \<Rightarrow> real \<Rightarrow> real list" where
  "t_add_s xs c = map (\<lambda>x. x + c) xs"

definition t_neg :: "real list \<Rightarrow> real list" where
  "t_neg xs = map uminus xs"

definition t_abs :: "real list \<Rightarrow> real list" where
  "t_abs xs = map abs xs"

definition t_sq :: "real list \<Rightarrow> real list" where
  "t_sq xs = map (\<lambda>x. x ^ 2) xs"

definition t_mean :: "real list \<Rightarrow> real" where
  "t_mean xs = sum_list xs / real (length xs)"

text \<open>\<open>torch.softmax(_, dim=0)\<close> on a column: normalised exponentials over the batch.\<close>

definition softmax :: "real list \<Rightarrow> real list" where
  "softmax xs = map (\<lambda>x. exp x / sum_list (map exp xs)) xs"

text \<open>\<open>_.sum(-1, keepdim=True)\<close> on a tensor of shape \<open>(B, d)\<close>.\<close>

definition sum_last :: "real list list \<Rightarrow> real list" where
  "sum_last rows = map sum_list rows"

section \<open>class DisCorAgent\<close>

definition set_training :: "bool \<Rightarrow> module \<Rightarrow> module" where
  "set_training b m = m\<lparr>training := b\<rparr>"

text \<open>\<open>DisCorAgent.train\<close> and \<open>DisCorAgent.eval\<close>.\<close>

definition agent_train :: "discor_agent \<Rightarrow> discor_agent" where
  "agent_train ag =
     \<lparr>actor = set_training True (actor ag),
      critic1 = set_training True (critic1 ag),
      critic2 = set_training True (critic2 ag),
      delta1 = set_training True (delta1 ag),
      delta2 = set_training True (delta2 ag)\<rparr>"

definition agent_eval :: "discor_agent \<Rightarrow> discor_agent" where
  "agent_eval ag =
     \<lparr>actor = set_training False (actor ag),
      critic1 = set_training False (critic1 ag),
      critic2 = set_training False (critic2 ag),
      delta1 = set_training False (delta1 ag),
      delta2 = set_training False (delta2 ag)\<rparr>"

text \<open>\<open>process_state\<close>: \<open>np.expand_dims(state, 0)\<close> adds the batch dimension.\<close>

definition process_state :: "vec \<Rightarrow> vec list" where
  "process_state state = [state]"

text \<open>
  \<open>torch.clamp(x, lo, hi)\<close> on one entry: \<open>min(max(x, lo), hi)\<close> for a finite value, the
  bound for an infinity, and NaN for NaN, which \<open>torch.clamp\<close> passes through.
\<close>

fun clamp :: "real \<Rightarrow> real \<Rightarrow> fl \<Rightarrow> fl" where
  "clamp lo hi (Fin v) = Fin (min (max v lo) hi)"
| "clamp lo hi PInf = Fin hi"
| "clamp lo hi NInf = Fin lo"
| "clamp lo hi NaN = NaN"

text \<open>
  \<open>process_act\<close>: \<open>act.clamp(-1.0, 1.0)\<close> on every entry, then \<open>np.squeeze(_, 0)\<close>, which
  raises \<open>ValueError\<close> unless the leading dimension has size one.
\<close>

definition process_act :: "vec list \<Rightarrow> error + vec" where
  "process_act act =
     (case map (map (clamp (- 1) 1)) act of
        [row] \<Rightarrow> Inr row
      | _ \<Rightarrow> Inl ValueError)"


definition sample_action ::
  "('d, 'r, 'o, 'e) ext \<Rightarrow> discor_agent \<Rightarrow> vec \<Rightarrow> 'r \<Rightarrow>
     (error \<times> discor_agent \<times> 'r) + (vec \<times> discor_agent \<times> 'r)" where
  "sample_action X ag state r =
     (let state1 = process_state state;
          ag1 = ag\<lparr>actor := set_training False (actor ag)\<rparr>;
          act_dist = actor_fwd X (actor ag1) state1;
          (act, r1) = dist_sample X act_dist r;
          ag2 = ag1\<lparr>actor := set_training True (actor ag1)\<rparr>
      in case process_act act of
           Inl e \<Rightarrow> Inl (e, ag2, r1)
         | Inr a \<Rightarrow> Inr (a, ag2, r1))"

section \<open>The update step \<open>learn_discor\<close>\<close>

text \<open>
  What \<open>learn_discor\<close> reads and mutates through its arguments: the two agents, the
  four optimizers, \<open>log_alpha\<close>, the two temperatures (distinct tensors, as \<open>discor\<close>
  creates them) and the random number generators.
\<close>

record ('r, 'o) learner =
  agent :: discor_agent
  target_agent :: discor_agent
  actor_optimizer :: 'o
  critic_optimizer :: 'o
  delta_optimizer :: 'o
  log_alpha_optimizer :: 'o
  log_alpha :: real
  temp1 :: real
  temp2 :: real
  rng :: 'r

text \<open>\<open>if clip: clip_grad_norm_(params, clip)\<close>: \<open>None\<close> and \<open>0.0\<close> are falsy.\<close>

definition clip_if ::
  "('d, 'r, 'o, 'e) ext \<Rightarrow> real option \<Rightarrow> params \<Rightarrow> params" where
  "clip_if X clip g =
     (case clip of
        None \<Rightarrow> g
      | Some c \<Rightarrow> if c \<noteq> 0 then clip_grad_norm X g c else g)"

text \<open>The values bound inside the first \<open>with torch.no_grad()\<close> block (lines 336-370).\<close>

record targets =
  action_s1 :: "vec list"
  logp_a1 :: "real list"
  td_target :: "real list"
  target_delta1_s1 :: "real list"
  target_delta2_s1 :: "real list"
  disCor_weights1 :: "real list"
  disCor_weights2 :: "real list"

definition critic_targets ::
  "('d, 'r, 'o, 'e) ext \<Rightarrow> discor_agent \<Rightarrow> discor_agent \<Rightarrow> real \<Rightarrow> real \<Rightarrow> int \<Rightarrow>
     real \<Rightarrow> real \<Rightarrow> real list \<Rightarrow> vec list \<Rightarrow> real list \<Rightarrow> 'r \<Rightarrow> targets \<times> 'r" where
  "critic_targets X ag tag alpha gamma batch_size tmp1 tmp2
       reward_batch next_state_batch done_batch r =
     (let action_dist_s1 = actor_fwd X (actor ag) next_state_batch;
          (a_s1, r1) = dist_rsample X action_dist_s1 r;
          lp_a1 = sum_last (dist_log_prob X action_dist_s1 a_s1);
          target_action_value_s1 =
            t_min (critic_fwd X (critic1 tag) next_state_batch a_s1)
                  (critic_fwd X (critic2 tag) next_state_batch a_s1);
          tdt = t_add reward_batch
                  (t_mul (s_mul gamma (s_sub 1 done_batch))
                         (t_sub target_action_value_s1 (s_mul alpha lp_a1)));
          td1_s1 = delta_fwd X (delta1 tag) next_state_batch a_s1;
          td2_s1 = delta_fwd X (delta2 tag) next_state_batch a_s1;
          w1 = s_mul (of_int batch_size)
                 (softmax (div_s (t_mul (mul_s (t_neg (s_sub 1 done_batch)) gamma)
                                        (delta_fwd X (delta1 ag) next_state_batch a_s1))
                                 tmp1));
          w2 = s_mul (of_int batch_size)
                 (softmax (div_s (t_mul (mul_s (t_neg (s_sub 1 done_batch)) gamma)
                                        (delta_fwd X (delta2 ag) next_state_batch a_s1))
                                 tmp2))
      in (\<lparr>action_s1 = a_s1, logp_a1 = lp_a1, td_target = tdt,
           target_delta1_s1 = td1_s1, target_delta2_s1 = td2_s1,
           disCor_weights1 = w1, disCor_weights2 = w2\<rparr>, r1))"

text \<open>
  The critic loss (lines 372-379) as a function of the chained parameters
  \<open>chain(critic1.parameters(), critic2.parameters())\<close>, a concatenation of the two
  flattened vectors. The TD target and the weights come from the no-grad block: they
  are constants of this function.
\<close>

definition critic_loss_fn ::
  "('d, 'r, 'o, 'e) ext \<Rightarrow> module \<Rightarrow> module \<Rightarrow> vec list \<Rightarrow> vec list \<Rightarrow>
     real list \<Rightarrow> real list \<Rightarrow> real list \<Rightarrow> params \<Rightarrow> real" where
  "critic_loss_fn X m1 m2 state_batch action_batch tdt w1 w2 p =
     (let n = length (weights m1);
          agent_critic1_pred = critic_fwd X (m1\<lparr>weights := take n p\<rparr>) state_batch action_batch;
          agent_critic2_pred = critic_fwd X (m2\<lparr>weights := drop n p\<rparr>) state_batch action_batch;
          td_error1 = t_sub tdt agent_critic1_pred;
          td_error2 = t_sub tdt agent_critic2_pred;
          critic1_loss = t_mul w1 (t_sq td_error1);
          critic2_loss = t_mul w2 (t_sq td_error2)
      in t_mean (t_add critic1_loss critic2_loss))"

text \<open>\<open>zero_grad\<close>, \<open>backward\<close>, optional clipping and \<open>step\<close> of one optimizer.\<close>

definition optimize ::
  "('d, 'r, 'o, 'e) ext \<Rightarrow> real option \<Rightarrow> 'o \<Rightarrow> (params \<Rightarrow> real) \<Rightarrow> params \<Rightarrow> 'o \<times> params" where
  "optimize X clip opt loss p = opt_step X opt p (clip_if X clip (grad X loss p))"

definition critic_update ::
  "('d, 'r, 'o, 'e) ext \<Rightarrow> real option \<Rightarrow> discor_agent \<Rightarrow> 'o \<Rightarrow> vec list \<Rightarrow> vec list \<Rightarrow>
     real list \<Rightarrow> real list \<Rightarrow> real list \<Rightarrow> discor_agent \<times> 'o" where
  "critic_update X critic_clip ag opt state_batch action_batch tdt w1 w2 =
     (let n = length (weights (critic1 ag));
          (opt1, p1) =
             optimize X critic_clip opt
               (critic_loss_fn X (critic1 ag) (critic2 ag) state_batch action_batch tdt w1 w2)
               (weights (critic1 ag) @ weights (critic2 ag))
      in (ag\<lparr>critic1 := (critic1 ag)\<lparr>weights := take n p1\<rparr>,
              critic2 := (critic2 ag)\<lparr>weights := drop n p1\<rparr>\<rparr>, opt1))"

definition delta_loss_fn ::
  "('d, 'r, 'o, 'e) ext \<Rightarrow> module \<Rightarrow> module \<Rightarrow> vec list \<Rightarrow> vec list \<Rightarrow>
     real list \<Rightarrow> real list \<Rightarrow> params \<Rightarrow> real" where
  "delta_loss_fn X m1 m2 state_batch action_batch tgt1 tgt2 p =
     (let n = length (weights m1);
          d1_pred = delta_fwd X (m1\<lparr>weights := take n p\<rparr>) state_batch action_batch;
          d2_pred = delta_fwd X (m2\<lparr>weights := drop n p\<rparr>) state_batch action_batch;
          delta1_loss = t_sq (t_sub tgt1 d1_pred);
          delta2_loss = t_sq (t_sub tgt2 d2_pred)
      in t_mean (t_add delta1_loss delta2_loss))"

definition delta_update ::
  "('d, 'r, 'o, 'e) ext \<Rightarrow> real option \<Rightarrow> discor_agent \<Rightarrow> 'o \<Rightarrow> vec list \<Rightarrow> vec list \<Rightarrow>
     real list \<Rightarrow> real list \<Rightarrow> discor_agent \<times> 'o" where
  "delta_update X delta_clip ag opt state_batch action_batch tgt1 tgt2 =
     (let n = length (weights (delta1 ag));
          (opt1, p1) =
             optimize X delta_clip opt
               (delta_loss_fn X (delta1 ag) (delta2 ag) state_batch action_batch tgt1 tgt2)
               (weights (delta1 ag) @ weights (delta2 ag))
      in (ag\<lparr>delta1 := (delta1 ag)\<lparr>weights := take n p1\<rparr>,
              delta2 := (delta2 ag)\<lparr>weights := drop n p1\<rparr>\<rparr>, opt1))"

text \<open>
  The actor loss (lines 420-429) as a function of the actor's parameters; the
  reparameterised sample is drawn with the same noise \<open>r\<close> for every parameter value.
\<close>

definition actor_loss_fn ::
  "('d, 'r, 'o, 'e) ext \<Rightarrow> module \<Rightarrow> module \<Rightarrow> module \<Rightarrow> vec list \<Rightarrow> real \<Rightarrow> 'r \<Rightarrow>
     params \<Rightarrow> real" where
  "actor_loss_fn X m c1 c2 state_batch alpha r p =
     (let dist = actor_fwd X (m\<lparr>weights := p\<rparr>) state_batch;
          (agent_actions, r1) = dist_rsample X dist r;
          logp_a = sum_last (dist_log_prob X dist agent_actions)
      in - t_mean (t_sub (t_min (critic_fwd X c1 state_batch agent_actions)
                                (critic_fwd X c2 state_batch agent_actions))
                         (s_mul alpha logp_a)))"

text \<open>The entropy-coefficient loss (line 439) as a function of the tensor \<open>log_alpha\<close>.\<close>

definition alpha_loss_fn :: "real list \<Rightarrow> real \<Rightarrow> params \<Rightarrow> real" where
  "alpha_loss_fn logp_a target_entropy p =
     t_mean (s_mul (- exp (hd p)) (t_add_s logp_a target_entropy))"

text \<open>
  The body of \<open>if update_policy:\<close> (lines 416-442). The actor loss is evaluated with
  the critics as the critic step left them and with \<open>alpha\<close> detached. \<open>log_alpha\<close> is
  handed to its optimizer as the one-entry tensor it is, and read back from the
  one-entry tensor the optimizer returns.
\<close>

definition policy_update ::
  "('d, 'r, 'o, 'e) ext \<Rightarrow> real option \<Rightarrow> real \<Rightarrow> vec list \<Rightarrow> real \<Rightarrow>
     ('r, 'o) learner \<Rightarrow> ('r, 'o) learner" where
  "policy_update X actor_clip target_entropy state_batch alpha st =
     (let ag = agent st;
          dist = actor_fwd X (actor ag) state_batch;
          (agent_actions, r1) = dist_rsample X dist (rng st);
          logp_a = sum_last (dist_log_prob X dist agent_actions);
          (aopt, p1) =
             optimize X actor_clip (actor_optimizer st)
               (actor_loss_fn X (actor ag) (critic1 ag) (critic2 ag) state_batch alpha (rng st))
               (weights (actor ag));
          (lopt, la1) =
             optimize X None (log_alpha_optimizer st)
               (alpha_loss_fn logp_a target_entropy) [log_alpha st]
      in st\<lparr>agent := ag\<lparr>actor := (actor ag)\<lparr>weights := p1\<rparr>\<rparr>,
             actor_optimizer := aopt,
             log_alpha_optimizer := lopt,
             log_alpha := hd la1,
             rng := r1\<rparr>)"

text \<open>The local variables of \<open>learn_discor\<close> that the properties below speak about.\<close>

record locals =
  batch :: "transition list"
  tg :: targets
  td_error1 :: "real list"
  td_error2 :: "real list"
  target_delta1 :: "real list"
  target_delta2 :: "real list"
  delta1_pred :: "real list"
  delta2_pred :: "real list"

text \<open>Lines 323-442: everything after the assertion.\<close>

definition learn_body ::
  "('d, 'r, 'o, 'e) ext \<Rightarrow> buffer \<Rightarrow> int \<Rightarrow> real \<Rightarrow> real option \<Rightarrow> real option \<Rightarrow>
     real option \<Rightarrow> real \<Rightarrow> real \<Rightarrow> bool \<Rightarrow> ('r, 'o) learner \<Rightarrow> locals \<times> ('r, 'o) learner" where
  "learn_body X buffer batch_size gamma critic_clip actor_clip delta_clip tau
       target_entropy update_policy st =
     (let (bt, r0) = buffer_sample X buffer batch_size (rng st);
          state_batch = map t_state bt;
          action_batch = map t_action bt;
          reward_batch = map t_reward bt;
          next_state_batch = map t_next_state bt;
          done_batch = map t_done bt;
          ag0 = agent_train (agent st);
          alpha = exp (log_alpha st);
          (tgs, r1) = critic_targets X ag0 (target_agent st) alpha gamma batch_size
                        (temp1 st) (temp2 st) reward_batch next_state_batch done_batch r0;
          agent_critic1_pred = critic_fwd X (critic1 ag0) state_batch action_batch;
          agent_critic2_pred = critic_fwd X (critic2 ag0) state_batch action_batch;
          tde1 = t_sub (td_target tgs) agent_critic1_pred;
          tde2 = t_sub (td_target tgs) agent_critic2_pred;
          (ag1, copt) = critic_update X critic_clip ag0 (critic_optimizer st)
                          state_batch action_batch (td_target tgs)
                          (disCor_weights1 tgs) (disCor_weights2 tgs);
          tgt1 = t_add (t_abs tde1)
                   (t_mul (s_mul gamma (s_sub 1 done_batch)) (target_delta1_s1 tgs));
          tgt2 = t_add (t_abs tde2)
                   (t_mul (s_mul gamma (s_sub 1 done_batch)) (target_delta2_s1 tgs));
          d1_pred = delta_fwd X (delta1 ag1) state_batch action_batch;
          d2_pred = delta_fwd X (delta2 ag1) state_batch action_batch;
          (ag2, dopt) = delta_update X delta_clip ag1 (delta_optimizer st)
                          state_batch action_batch tgt1 tgt2;
          st1 = st\<lparr>agent := ag2,
                   critic_optimizer := copt,
                   delta_optimizer := dopt,
                   temp1 := temp1 st * (1 - tau) + tau * t_mean d1_pred,
                   temp2 := temp2 st * (1 - tau) + tau * t_mean d2_pred,
                   rng := r1\<rparr>
      in (\<lparr>batch = bt, tg = tgs, td_error1 = tde1, td_error2 = tde2,
           target_delta1 = tgt1, target_delta2 = tgt2,
           delta1_pred = d1_pred, delta2_pred = d2_pred\<rparr>,
          if update_policy
          then policy_update X actor_clip target_entropy state_batch alpha st1
          else st1))"

text \<open>
  \<open>learn_discor\<close>: the assertion of line 321, then the body. The function returns
  \<open>None\<close>; its effect is the new state.
\<close>

definition learn_discor ::
  "('d, 'r, 'o, 'e) ext \<Rightarrow> buffer \<Rightarrow> int \<Rightarrow> real \<Rightarrow> real option \<Rightarrow> real option \<Rightarrow>
     real option \<Rightarrow> real \<Rightarrow> real \<Rightarrow> bool \<Rightarrow> ('r, 'o) learner \<Rightarrow>
     (error \<times> ('r, 'o) learner) + ('r, 'o) learner" where
  "learn_discor X buffer batch_size gamma critic_clip actor_clip delta_clip tau
       target_entropy update_policy st =
     (if kind buffer = PrioritizedReplayBuffer
      then Inl (AssertionError, st)
      else Inr (snd (learn_body X buffer batch_size gamma critic_clip actor_clip
                       delta_clip tau target_entropy update_policy st)))"

section \<open>The training loop \<open>discor\<close>\<close>

text \<open>
  The local variables of \<open>discor\<close> that live across iterations. \<open>writer\<close> is the list of
  scalars logged under \<open>"return"\<close>; \<open>saved\<close> is the last checkpoint written by
  \<open>agent.save\<close>. \<open>state\<close> and \<open>steps_this_ep\<close> are unbound in the source until the first
  reset, which the initial \<open>done = True\<close> forces before they are read.
\<close>

record ('r, 'o, 'e) run_state =
  ls :: "('r, 'o) learner"
  buf :: buffer
  train_env :: 'e
  test_env :: 'e
  target_entropy_val :: real
  state :: vec
  steps_this_ep :: int
  done_flag :: bool
  writer :: "(int \<times> real) list"
  saved :: "discor_agent option"

text \<open>
  Modelled from the spec: \<open>utils.hard_update\<close> and \<open>utils.soft_update\<close> are not among the
  sources. Hard update: "direct copy of live parameters into target parameters". Soft
  update: "\<open>target = target\<cdot>(1-\<tau>) + live\<cdot>\<tau>\<close>, applied parameter-by-parameter".
\<close>

definition hard_update :: "module \<Rightarrow> module \<Rightarrow> module" where
  "hard_update target source = target\<lparr>weights := weights source\<rparr>"

definition soft_update :: "module \<Rightarrow> module \<Rightarrow> real \<Rightarrow> module" where
  "soft_update target source tau =
     target\<lparr>weights := map2 (\<lambda>t l. t * (1 - tau) + l * tau) (weights target) (weights source)\<rparr>"

text \<open>Lines 192-196 and lines 280-284: the four sub-networks that are synchronised.\<close>

definition hard_sync :: "discor_agent \<Rightarrow> discor_agent \<Rightarrow> discor_agent" where
  "hard_sync tag ag =
     tag\<lparr>critic1 := hard_update (critic1 tag) (critic1 ag),
         critic2 := hard_update (critic2 tag) (critic2 ag),
         delta1 := hard_update (delta1 tag) (delta1 ag),
         delta2 := hard_update (delta2 tag) (delta2 ag)\<rparr>"

definition soft_sync :: "discor_agent \<Rightarrow> discor_agent \<Rightarrow> real \<Rightarrow> discor_agent" where
  "soft_sync tag ag tau =
     tag\<lparr>critic1 := soft_update (critic1 tag) (critic1 ag) tau,
         critic2 := soft_update (critic2 tag) (critic2 ag) tau,
         delta1 := soft_update (delta1 tag) (delta1 ag) tau,
         delta2 := soft_update (delta2 tag) (delta2 ag) tau\<rparr>"

text \<open>
  The setup (lines 188-236). \<open>copy.deepcopy\<close> gives the target agent its own copy of
  every parameter, so in the value model it is the same record. \<open>math.log\<close> raises
  \<open>ValueError\<close> outside its domain.
\<close>

definition discor_init ::
  "('d, 'r, 'o, 'e) ext \<Rightarrow> config \<Rightarrow> discor_agent \<Rightarrow> buffer \<Rightarrow> 'e \<Rightarrow> 'e \<Rightarrow> 'r \<Rightarrow>
     error + ('r, 'o, 'e) run_state" where
  "discor_init X cfg ag0 buffer tr_env te_env r =
     (let ag = agent_train ag0;
          tag0 = ag;
          tag = agent_train (hard_sync tag0 ag);
          copt = adam_init X (weights (critic1 ag) @ weights (critic2 ag))
                   (cfg_critic_lr cfg) (cfg_critic_l2 cfg) (0.9, 0.999);
          aopt = adam_init X (weights (actor ag))
                   (cfg_actor_lr cfg) (cfg_actor_l2 cfg) (0.9, 0.999);
          dopt = adam_init X (weights (delta1 ag) @ weights (delta2 ag))
                   (cfg_delta_lr cfg) (cfg_delta_l2 cfg) (0.9, 0.999)
      in if cfg_init_alpha cfg \<le> 0 then Inl ValueError
         else
           (let la = ln (cfg_init_alpha cfg);
                lopt = adam_init X [la] (cfg_alpha_lr cfg) 0 (0.5, 0.999);
                te = - of_int (action_dim X tr_env);
                ((buffer1, env1), r1) =
                   warmup_buffer X buffer tr_env (cfg_warmup_steps cfg)
                     (cfg_max_episode_steps cfg) r
            in Inr \<lparr>ls = \<lparr>agent = ag, target_agent = tag,
                           actor_optimizer = aopt, critic_optimizer = copt,
                           delta_optimizer = dopt, log_alpha_optimizer = lopt,
                           log_alpha = la,
                           temp1 = cfg_init_temp cfg, temp2 = cfg_init_temp cfg,
                           rng = r1\<rparr>,
                     buf = buffer1, train_env = env1, test_env = te_env,
                     target_entropy_val = te,
                     state = [], steps_this_ep = 0, done_flag = True,
                     writer = [], saved = None\<rparr>))"

text \<open>Lines 242-245: \<open>if done:\<close> reset the environment and the episode counters.\<close>

definition reset_if_done ::
  "('d, 'r, 'o, 'e) ext \<Rightarrow> ('r, 'o, 'e) run_state \<Rightarrow> ('r, 'o, 'e) run_state" where
  "reset_if_done X rs =
     (if done_flag rs
      then (let (s, env) = env_reset X (train_env rs)
            in rs\<lparr>state := s, train_env := env, steps_this_ep := 0, done_flag := False\<rparr>)
      else rs)"

text \<open>One iteration of the rollout loop (lines 242-255).\<close>

definition rollout_step ::
  "('d, 'r, 'o, 'e) ext \<Rightarrow> config \<Rightarrow> ('r, 'o, 'e) run_state \<Rightarrow>
     (error \<times> ('r, 'o, 'e) run_state) + ('r, 'o, 'e) run_state" where
  "rollout_step X cfg rs =
     (let rs0 = reset_if_done X rs
      in case sample_action X (agent (ls rs0)) (state rs0) (rng (ls rs0)) of
           Inl (e, ag, r) \<Rightarrow> Inl (e, rs0\<lparr>ls := (ls rs0)\<lparr>agent := ag, rng := r\<rparr>\<rparr>)
         | Inr (action, ag, r) \<Rightarrow>
             (let ((next_state, reward, done0), env1) = env_step X (train_env rs0) action;
                  done1 = (if cfg_infinite_bootstrap cfg
                           then (if steps_this_ep rs0 + 1 = cfg_max_episode_steps cfg
                                 then False else done0)
                           else done0);
                  buffer1 = buffer_push X (buf rs0) (state rs0) action reward next_state done1;
                  steps1 = steps_this_ep rs0 + 1;
                  done2 = (if steps1 \<ge> cfg_max_episode_steps cfg then True else done1)
              in Inr (rs0\<lparr>ls := (ls rs0)\<lparr>agent := ag, rng := r\<rparr>,
                          buf := buffer1, train_env := env1, state := next_state,
                          steps_this_ep := steps1, done_flag := done2\<rparr>)))"

text \<open>\<open>for _ in range(transitions_per_step)\<close>.\<close>

fun rollout ::
  "('d, 'r, 'o, 'e) ext \<Rightarrow> config \<Rightarrow> nat \<Rightarrow> ('r, 'o, 'e) run_state \<Rightarrow>
     (error \<times> ('r, 'o, 'e) run_state) + ('r, 'o, 'e) run_state" where
  "rollout X cfg 0 rs = Inr rs"
| "rollout X cfg (Suc n) rs =
     (case rollout_step X cfg rs of
        Inl e \<Rightarrow> Inl e
      | Inr rs1 \<Rightarrow> rollout X cfg n rs1)"

text \<open>
  One iteration of \<open>for _ in range(gradient_updates_per_step)\<close> (lines 258-277);
  \<open>step % actor_delay\<close> raises \<open>ZeroDivisionError\<close> when \<open>actor_delay\<close> is zero.
\<close>

definition update_once ::
  "('d, 'r, 'o, 'e) ext \<Rightarrow> config \<Rightarrow> int \<Rightarrow> ('r, 'o, 'e) run_state \<Rightarrow>
     (error \<times> ('r, 'o, 'e) run_state) + ('r, 'o, 'e) run_state" where
  "update_once X cfg step rs =
     (if cfg_actor_delay cfg = 0 then Inl (ZeroDivisionError, rs)
      else
        (case learn_discor X (buf rs) (cfg_batch_size cfg) (cfg_gamma cfg)
                (cfg_critic_clip cfg) (cfg_actor_clip cfg) (cfg_delta_clip cfg)
                (cfg_tau cfg) (target_entropy_val rs)
                (step mod cfg_actor_delay cfg = 0) (ls rs) of
           Inl (e, st) \<Rightarrow> Inl (e, rs\<lparr>ls := st\<rparr>)
         | Inr st \<Rightarrow> Inr (rs\<lparr>ls := st\<rparr>)))"

fun updates ::
  "('d, 'r, 'o, 'e) ext \<Rightarrow> config \<Rightarrow> int \<Rightarrow> nat \<Rightarrow> ('r, 'o, 'e) run_state \<Rightarrow>
     (error \<times> ('r, 'o, 'e) run_state) + ('r, 'o, 'e) run_state" where
  "updates X cfg step 0 rs = Inr rs"
| "updates X cfg step (Suc n) rs =
     (case update_once X cfg step rs of
        Inl e \<Rightarrow> Inl e
      | Inr rs1 \<Rightarrow> updates X cfg step n rs1)"

text \<open>Lines 279-284: the periodic soft update of the target agent.\<close>

definition target_sync ::
  "config \<Rightarrow> int \<Rightarrow> ('r, 'o, 'e) run_state \<Rightarrow>
     (error \<times> ('r, 'o, 'e) run_state) + ('r, 'o, 'e) run_state" where
  "target_sync cfg step rs =
     (if cfg_target_delay cfg = 0 then Inl (ZeroDivisionError, rs)
      else if step mod cfg_target_delay cfg = 0
      then Inr (rs\<lparr>ls := (ls rs)\<lparr>target_agent :=
                   soft_sync (target_agent (ls rs)) (agent (ls rs)) (cfg_tau cfg)\<rparr>\<rparr>)
      else Inr rs)"

text \<open>
  Lines 286-294: evaluation and checkpointing. \<open>run.evaluate_agent\<close> is taken as
  returning the mean return and the evaluation environment after the episodes.
\<close>

definition eval_and_save ::
  "('d, 'r, 'o, 'e) ext \<Rightarrow> config \<Rightarrow> int \<Rightarrow> ('r, 'o, 'e) run_state \<Rightarrow>
     (error \<times> ('r, 'o, 'e) run_state) + ('r, 'o, 'e) run_state" where
  "eval_and_save X cfg step rs =
     (if cfg_eval_interval cfg = 0 then Inl (ZeroDivisionError, rs)
      else
        (let rs1 =
           (if step mod cfg_eval_interval cfg = 0 \<or> step = cfg_num_steps cfg - 1
            then (let (mean_return, env) =
                        evaluate_agent X (agent (ls rs)) (test_env rs)
                          (cfg_eval_episodes cfg) (cfg_max_episode_steps cfg) (cfg_render cfg)
                  in rs\<lparr>test_env := env,
                         writer := (if cfg_log_to_disk cfg
                                    then writer rs @ [(step * cfg_transitions_per_step cfg, mean_return)]
                                    else writer rs)\<rparr>)
            else rs)
         in if cfg_save_interval cfg = 0 then Inl (ZeroDivisionError, rs1)
            else if step mod cfg_save_interval cfg = 0 \<and> cfg_save_to_disk cfg
            then Inr (rs1\<lparr>saved := Some (agent (ls rs1))\<rparr>)
            else Inr rs1))"

text \<open>The body of \<open>for step in steps_iter\<close> (lines 241-294).\<close>

definition discor_step ::
  "('d, 'r, 'o, 'e) ext \<Rightarrow> config \<Rightarrow> int \<Rightarrow> ('r, 'o, 'e) run_state \<Rightarrow>
     (error \<times> ('r, 'o, 'e) run_state) + ('r, 'o, 'e) run_state" where
  "discor_step X cfg step rs =
     (case rollout X cfg (nat (cfg_transitions_per_step cfg)) rs of
        Inl e \<Rightarrow> Inl e
      | Inr rs1 \<Rightarrow>
          (case updates X cfg step (nat (cfg_gradient_updates_per_step cfg)) rs1 of
             Inl e \<Rightarrow> Inl e
           | Inr rs2 \<Rightarrow>
               (case target_sync cfg step rs2 of
                  Inl e \<Rightarrow> Inl e
                | Inr rs3 \<Rightarrow> eval_and_save X cfg step rs3)))"

fun discor_loop ::
  "('d, 'r, 'o, 'e) ext \<Rightarrow> config \<Rightarrow> int list \<Rightarrow> ('r, 'o, 'e) run_state \<Rightarrow>
     (error \<times> ('r, 'o, 'e) run_state) + ('r, 'o, 'e) run_state" where
  "discor_loop X cfg [] rs = Inr rs"
| "discor_loop X cfg (step # steps) rs =
     (case discor_step X cfg step rs of
        Inl e \<Rightarrow> Inl e
      | Inr rs1 \<Rightarrow> discor_loop X cfg steps rs1)"

text \<open>\<open>range(num_steps)\<close>.\<close>

definition steps_iter :: "config \<Rightarrow> int list" where
  "steps_iter cfg = map int [0..<nat (cfg_num_steps cfg)]"

text \<open>
  \<open>discor\<close>: the hyper-parameter log of lines 181-183 (only with \<open>log_to_disk\<close>, and
  before anything is set up), then setup, loop and final checkpoint; returns the agent.
\<close>

definition discor ::
  "('d, 'r, 'o, 'e) ext \<Rightarrow> config \<Rightarrow> discor_agent \<Rightarrow> buffer \<Rightarrow> 'e \<Rightarrow> 'e \<Rightarrow> 'r \<Rightarrow>
     (error \<times> ('r, 'o, 'e) run_state option) + (discor_agent \<times> ('r, 'o, 'e) run_state)" where
  "discor X cfg ag buffer tr_env te_env r =
     (case (if cfg_log_to_disk cfg then add_hparams X cfg else None) of
        Some e \<Rightarrow> Inl (e, None)
      | None \<Rightarrow>
          (case discor_init X cfg ag buffer tr_env te_env r of
             Inl e \<Rightarrow> Inl (e, None)
           | Inr rs0 \<Rightarrow>
               (case discor_loop X cfg (steps_iter cfg) rs0 of
                  Inl (e, rs) \<Rightarrow> Inl (e, Some rs)
                | Inr rs \<Rightarrow>
                    Inr (agent (ls rs),
                         if cfg_save_to_disk cfg
                         then rs\<lparr>saved := Some (agent (ls rs))\<rparr> else rs))))"

section \<open>The specification's formulas\<close>

text \<open>
  The formulas of the specification, written entry by entry over the batch, to be
  compared with what the code computes with tensor operations.
\<close>

definition spec_td_target ::
  "real \<Rightarrow> real \<Rightarrow> real list \<Rightarrow> real list \<Rightarrow> real list \<Rightarrow> real list \<Rightarrow> real list \<Rightarrow> real list" where
  "spec_td_target gamma alpha rewards dones q1 q2 logprob =
     map (\<lambda>i. rewards ! i + gamma * (1 - dones ! i) * (min (q1 ! i) (q2 ! i) - alpha * logprob ! i))
         [0..<length rewards]"

definition spec_logits :: "real \<Rightarrow> real \<Rightarrow> real list \<Rightarrow> real list \<Rightarrow> real list" where
  "spec_logits gamma temp dones deltas =
     map (\<lambda>i. - (1 - dones ! i) * gamma * deltas ! i / temp) [0..<length dones]"

definition spec_delta_target :: "real \<Rightarrow> real list \<Rightarrow> real list \<Rightarrow> real list \<Rightarrow> real list" where
  "spec_delta_target gamma dones td_error next_delta =
     map (\<lambda>i. \<bar>td_error ! i\<bar> + gamma * (1 - dones ! i) * next_delta ! i) [0..<length dones]"

definition spec_td_error :: "real list \<Rightarrow> real list \<Rightarrow> real list" where
  "spec_td_error target prediction =
     map (\<lambda>i. target ! i - prediction ! i) [0..<length target]"


text \<open>
  The shapes the external networks and distributions are taken to have: a critic or a
  delta network returns one value per row of its input, and a distribution over a
  batch yields one sampled action and one row of log-probabilities per row.
\<close>

definition shape_ok :: "('d, 'r, 'o, 'e) ext \<Rightarrow> bool" where
  "shape_ok X \<longleftrightarrow>
     (\<forall>m ss acts. length acts = length ss \<longrightarrow> length (critic_fwd X m ss acts) = length ss) \<and>
     (\<forall>m ss acts. length acts = length ss \<longrightarrow> length (delta_fwd X m ss acts) = length ss) \<and>
     (\<forall>m ss r. length (fst (dist_rsample X (actor_fwd X m ss) r)) = length ss) \<and>
     (\<forall>m ss acts. length acts = length ss \<longrightarrow>
        length (dist_log_prob X (actor_fwd X m ss) acts) = length ss)"

section \<open>A concrete instance\<close>

text \<open>
  Small executable collaborators on which the theorems are instantiated: linear
  networks, a distribution given by its mean rows whose samples add the generator's
  counter, a forward-difference gradient, a plain gradient-descent optimizer, a
  first-in buffer, a counting environment whose episodes end after three steps, and a
  hyper-parameter log that raises as the one of \<open>torch\<close> does. The actor scales and
  shifts floats as IEEE arithmetic does (NaN stays NaN, an infinity keeps or flips its
  sign); the critics and delta networks read a non-finite entry as zero.
\<close>

fun fl_scale :: "real \<Rightarrow> fl \<Rightarrow> fl" where
  "fl_scale w (Fin v) = Fin (w * v)"
| "fl_scale w PInf = (if 0 < w then PInf else if w < 0 then NInf else NaN)"
| "fl_scale w NInf = (if 0 < w then NInf else if w < 0 then PInf else NaN)"
| "fl_scale w NaN = NaN"

fun fl_shift :: "real \<Rightarrow> fl \<Rightarrow> fl" where
  "fl_shift c (Fin v) = Fin (v + c)"
| "fl_shift c PInf = PInf"
| "fl_shift c NInf = NInf"
| "fl_shift c NaN = NaN"

fun fl_val :: "fl \<Rightarrow> real" where
  "fl_val (Fin v) = v"
| "fl_val PInf = 0"
| "fl_val NInf = 0"
| "fl_val NaN = 0"

definition fl_sum :: "vec \<Rightarrow> real" where
  "fl_sum xs = sum_list (map fl_val xs)"

definition toy_ext :: "(vec list, nat, nat, nat) ext" where
  "toy_ext =
     \<lparr>actor_fwd = (\<lambda>m ss. map (map (fl_scale (sum_list (weights m)))) ss),
      critic_fwd = (\<lambda>m ss acts. map2 (\<lambda>s a. sum_list (weights m) + fl_sum s + fl_sum a) ss acts),
      delta_fwd = (\<lambda>m ss acts. map2 (\<lambda>s a. sum_list (weights m) * (fl_sum s - fl_sum a)) ss acts),
      dist_mean = (\<lambda>d. d),
      dist_sample = (\<lambda>d r. (map (map (fl_shift (real r))) d, Suc r)),
      dist_rsample = (\<lambda>d r. (map (map (fl_shift (real r))) d, Suc r)),
      dist_log_prob = (\<lambda>d acts. map2 (map2 (\<lambda>mu a. - ((fl_val a - fl_val mu) ^ 2))) d acts),
      grad = (\<lambda>f p. map (\<lambda>i. f (p[i := p ! i + 1]) - f p) [0..<length p]),
      clip_grad_norm = (\<lambda>g c. map (\<lambda>x. max (- c) (min c x)) g),
      opt_step = (\<lambda>opt p g. (Suc opt, map2 (\<lambda>x y. x - y / 10) p g)),
      buffer_sample = (\<lambda>b n r. (take (nat n) (storage b), Suc r)),
      buffer_push = (\<lambda>b s a rw ns d.
         b\<lparr>storage := storage b @
             [\<lparr>t_state = s, t_action = a, t_reward = rw, t_next_state = ns,
               t_done = (if d then 1 else 0)\<rparr>]\<rparr>),
      env_reset = (\<lambda>e. ([Fin 0], 0)),
      env_step = (\<lambda>e a. (([Fin (real (Suc e))], 1, 3 \<le> Suc e), Suc e)),
      action_dim = (\<lambda>e. 1),
      adam_init = (\<lambda>p lr wd betas. 0),
      warmup_buffer = (\<lambda>b e n m r. ((b, e), r)),
      evaluate_agent = (\<lambda>ag e n m rnd. (0, e)),
      add_hparams = (\<lambda>cfg. Some ValueError)\<rparr>"

definition toy_module :: "real \<Rightarrow> module" where
  "toy_module w = \<lparr>weights = [w], training = True\<rparr>"

definition toy_agent :: discor_agent where
  "toy_agent =
     \<lparr>actor = toy_module 2, critic1 = toy_module 1, critic2 = toy_module 3,
      delta1 = toy_module 1, delta2 = toy_module 2\<rparr>"

definition toy_target :: discor_agent where
  "toy_target =
     \<lparr>actor = toy_module 2, critic1 = toy_module 0, critic2 = toy_module 1,
      delta1 = toy_module 3, delta2 = toy_module 4\<rparr>"

definition toy_buffer :: buffer where
  "toy_buffer =
     \<lparr>kind = ReplayBuffer,
      storage =
        [\<lparr>t_state = [Fin 0], t_action = [Fin 1], t_reward = 1, t_next_state = [Fin 1],
          t_done = 0\<rparr>,
         \<lparr>t_state = [Fin 3], t_action = [Fin 0], t_reward = 1, t_next_state = [Fin 2],
          t_done = 1\<rparr>]\<rparr>"

definition toy_learner :: "(nat, nat) learner" where
  "toy_learner =
     \<lparr>agent = toy_agent, target_agent = toy_target,
      actor_optimizer = 0, critic_optimizer = 0, delta_optimizer = 0,
      log_alpha_optimizer = 0, log_alpha = 0, temp1 = 10, temp2 = 10, rng = 0\<rparr>"

definition toy_config :: config where
  "toy_config =
     \<lparr>cfg_num_steps = 2, cfg_transitions_per_step = 1, cfg_max_episode_steps = 1,
      cfg_batch_size = 2, cfg_tau = 1 / 2,
      cfg_actor_lr = 1 / 10, cfg_critic_lr = 1 / 10, cfg_alpha_lr = 1 / 10,
      cfg_delta_lr = 1 / 10, cfg_gamma = 1 / 2,
      cfg_eval_interval = 1, cfg_eval_episodes = 1, cfg_warmup_steps = 0,
      cfg_actor_clip = None, cfg_critic_clip = None, cfg_delta_clip = None,
      cfg_actor_l2 = 0, cfg_critic_l2 = 0, cfg_delta_l2 = 0,
      cfg_target_delay = 2, cfg_actor_delay = 1, cfg_save_interval = 1,
      cfg_render = False, cfg_save_to_disk = False, cfg_log_to_disk = False,
      cfg_gradient_updates_per_step = 1, cfg_init_alpha = 1, cfg_init_temp = 10,
      cfg_infinite_bootstrap = True\<rparr>"

text \<open>A configuration whose iterations do nothing and then fail at \<open>step % eval_interval\<close>.\<close>

definition toy_config_no_eval :: config where
  "toy_config_no_eval =
     toy_config\<lparr>cfg_transitions_per_step := 0, cfg_gradient_updates_per_step := 0,
                 cfg_eval_interval := 0\<rparr>"

definition toy_run :: "(nat, nat, nat) run_state" where
  "toy_run =
     \<lparr>ls = toy_learner, buf = toy_buffer, train_env = 2, test_env = 0,
      target_entropy_val = - 1, state = [Fin (1 / 2)], steps_this_ep = 0, done_flag = False,
      writer = [], saved = None\<rparr>"

section \<open>Auxiliary lemmas\<close>






lemma length_softmax [simp]: "length (softmax xs) = length xs"
  by (simp add: softmax_def)

lemma learn_body_tg:
  "tg (fst (learn_body X buffer B g cc ac dc t te up st)) =
     fst (critic_targets X (agent_train (agent st)) (target_agent st) (exp (log_alpha st)) g B
            (temp1 st) (temp2 st)
            (map t_reward (fst (buffer_sample X buffer B (rng st))))
            (map t_next_state (fst (buffer_sample X buffer B (rng st))))
            (map t_done (fst (buffer_sample X buffer B (rng st))))
            (snd (buffer_sample X buffer B (rng st))))"
  by (simp add: learn_body_def Let_def case_prod_beta)

lemma critic_targets_eq:
  assumes "dist_rsample X (actor_fwd X (actor ag) ns) r = (a', r1)"
  shows "critic_targets X ag tag alpha g B t1 t2 rw ns dn r =
     (\<lparr>action_s1 = a',
       logp_a1 = sum_last (dist_log_prob X (actor_fwd X (actor ag) ns) a'),
       td_target = t_add rw (t_mul (s_mul g (s_sub 1 dn))
                     (t_sub (t_min (critic_fwd X (critic1 tag) ns a') (critic_fwd X (critic2 tag) ns a'))
                            (s_mul alpha (sum_last (dist_log_prob X (actor_fwd X (actor ag) ns) a'))))),
       target_delta1_s1 = delta_fwd X (delta1 tag) ns a',
       target_delta2_s1 = delta_fwd X (delta2 tag) ns a',
       disCor_weights1 = s_mul (of_int B)
          (softmax (div_s (t_mul (mul_s (t_neg (s_sub 1 dn)) g) (delta_fwd X (delta1 ag) ns a')) t1)),
       disCor_weights2 = s_mul (of_int B)
          (softmax (div_s (t_mul (mul_s (t_neg (s_sub 1 dn)) g) (delta_fwd X (delta2 ag) ns a')) t2))\<rparr>,
      r1)"
  using assms by (simp add: critic_targets_def Let_def)

lemma td_target_tensor_eq:
  assumes "length dn = length rw" "length q1 = length rw" "length q2 = length rw"
    "length lp = length rw"
  shows "t_add rw (t_mul (s_mul g (s_sub 1 dn)) (t_sub (t_min q1 q2) (s_mul alpha lp))) =
         spec_td_target g alpha rw dn q1 q2 lp"
  using assms
  by (intro nth_equalityI) (simp_all add: spec_td_target_def t_add_def t_mul_def t_sub_def t_min_def
      s_mul_def s_sub_def)

lemma logits_tensor_eq:
  assumes "length ds = length dn"
  shows "div_s (t_mul (mul_s (t_neg (s_sub 1 dn)) g) ds) t = spec_logits g t dn ds"
  using assms
  by (intro nth_equalityI) (simp_all add: spec_logits_def div_s_def t_mul_def mul_s_def t_neg_def s_sub_def)

lemma td_error_tensor_eq:
  assumes "length pr = length tgt"
  shows "t_sub tgt pr = spec_td_error tgt pr"
  using assms by (intro nth_equalityI) (simp_all add: spec_td_error_def t_sub_def)

lemma delta_target_tensor_eq:
  assumes "length tde = length dn" "length nd = length dn"
  shows "t_add (t_abs tde) (t_mul (s_mul g (s_sub 1 dn)) nd) = spec_delta_target g dn tde nd"
  using assms
  by (intro nth_equalityI) (simp_all add: spec_delta_target_def t_add_def t_abs_def t_mul_def
      s_mul_def s_sub_def)

lemma critic_update_frame:
  "actor (fst (critic_update X cc ag opt sb ab tdt w1 w2)) = actor ag"
  "delta1 (fst (critic_update X cc ag opt sb ab tdt w1 w2)) = delta1 ag"
  "delta2 (fst (critic_update X cc ag opt sb ab tdt w1 w2)) = delta2 ag"
  by (simp_all add: critic_update_def Let_def case_prod_beta)

lemma delta_update_frame:
  "actor (fst (delta_update X dc ag opt sb ab t1 t2)) = actor ag"
  "critic1 (fst (delta_update X dc ag opt sb ab t1 t2)) = critic1 ag"
  "critic2 (fst (delta_update X dc ag opt sb ab t1 t2)) = critic2 ag"
  by (simp_all add: delta_update_def Let_def case_prod_beta)

lemma policy_update_frame:
  "temp1 (policy_update X ac te sb alpha st) = temp1 st"
  "temp2 (policy_update X ac te sb alpha st) = temp2 st"
  "target_agent (policy_update X ac te sb alpha st) = target_agent st"
  by (simp_all add: policy_update_def Let_def case_prod_beta)

lemma learn_body_temps:
  assumes "buffer_sample X buffer B (rng st) = (bt, r0)"
  shows "temp1 (snd (learn_body X buffer B g cc ac dc t te up st)) =
           temp1 st * (1 - t) + t * t_mean (delta_fwd X (delta1 (agent_train (agent st)))
                                              (map t_state bt) (map t_action bt))"
    and "temp2 (snd (learn_body X buffer B g cc ac dc t te up st)) =
           temp2 st * (1 - t) + t * t_mean (delta_fwd X (delta2 (agent_train (agent st)))
                                              (map t_state bt) (map t_action bt))"
  using assms
  by (simp_all add: learn_body_def Let_def case_prod_beta critic_update_frame policy_update_frame)

lemma learn_body_target_agent:
  "target_agent (snd (learn_body X buffer B g cc ac dc t te up st)) = target_agent st"
  by (simp add: learn_body_def Let_def case_prod_beta policy_update_frame)

lemma learn_body_no_policy:
  "actor (agent (snd (learn_body X buffer B g cc ac dc t te False st))) =
     set_training True (actor (agent st))"
  "log_alpha (snd (learn_body X buffer B g cc ac dc t te False st)) = log_alpha st"
  "actor_optimizer (snd (learn_body X buffer B g cc ac dc t te False st)) = actor_optimizer st"
  "log_alpha_optimizer (snd (learn_body X buffer B g cc ac dc t te False st)) =
     log_alpha_optimizer st"
  by (simp_all add: learn_body_def Let_def case_prod_beta critic_update_frame delta_update_frame
      agent_train_def)

lemma shape_okD:
  assumes "shape_ok X"
  shows "length acts = length ss \<Longrightarrow> length (critic_fwd X m ss acts) = length ss"
    and "length acts = length ss \<Longrightarrow> length (delta_fwd X m ss acts) = length ss"
    and "length (fst (dist_rsample X (actor_fwd X m ss) r)) = length ss"
    and "length acts = length ss \<Longrightarrow> length (dist_log_prob X (actor_fwd X m ss) acts) = length ss"
  using assms unfolding shape_ok_def by blast+

lemma shape_ok_toy: "shape_ok toy_ext"
  by (simp add: shape_ok_def toy_ext_def fl_sum_def)

lemma toy_sample:
  "buffer_sample toy_ext toy_buffer 2 (rng toy_learner) = (storage toy_buffer, Suc 0)"
  by (simp add: toy_ext_def fl_sum_def toy_buffer_def toy_learner_def)

lemma toy_next_action:
  "dist_rsample toy_ext
     (actor_fwd toy_ext (actor (agent_train (agent toy_learner)))
        (map t_next_state (storage toy_buffer))) (Suc 0) = ([[Fin 3], [Fin 5]], 2)"
  by (simp add: toy_ext_def fl_sum_def toy_buffer_def toy_learner_def toy_agent_def toy_module_def
      agent_train_def set_training_def)

lemma agent_train_sel:
  "actor (agent_train ag) = set_training True (actor ag)"
  "critic1 (agent_train ag) = set_training True (critic1 ag)"
  "critic2 (agent_train ag) = set_training True (critic2 ag)"
  "delta1 (agent_train ag) = set_training True (delta1 ag)"
  "delta2 (agent_train ag) = set_training True (delta2 ag)"
  by (simp_all add: agent_train_def)

lemma weights_set_training: "weights (set_training b m) = weights m"
  by (simp add: set_training_def)

lemma learn_body_critics:
  assumes "buffer_sample X buffer B (rng st) = (bt, r0)"
    and "L = fst (learn_body X buffer B g cc ac dc t te up st)"
    and "p = snd (optimize X cc (critic_optimizer st)
                (critic_loss_fn X (set_training True (critic1 (agent st)))
                   (set_training True (critic2 (agent st)))
                   (map t_state bt) (map t_action bt)
                   (td_target (tg L)) (disCor_weights1 (tg L)) (disCor_weights2 (tg L)))
                (weights (critic1 (agent st)) @ weights (critic2 (agent st))))"
  shows "weights (critic1 (agent (snd (learn_body X buffer B g cc ac dc t te up st)))) =
           take (length (weights (critic1 (agent st)))) p"
    and "weights (critic2 (agent (snd (learn_body X buffer B g cc ac dc t te up st)))) =
           drop (length (weights (critic1 (agent st)))) p"
  using assms(1)
  by (simp_all add: assms(2,3) learn_body_def Let_def case_prod_beta critic_update_def
      delta_update_def policy_update_def agent_train_sel weights_set_training)


lemma learn_body_deltas:
  assumes "buffer_sample X buffer B (rng st) = (bt, r0)"
    and "L = fst (learn_body X buffer B g cc ac dc t te up st)"
    and "p = snd (optimize X dc (delta_optimizer st)
                (delta_loss_fn X (set_training True (delta1 (agent st)))
                   (set_training True (delta2 (agent st)))
                   (map t_state bt) (map t_action bt)
                   (target_delta1 L) (target_delta2 L))
                (weights (delta1 (agent st)) @ weights (delta2 (agent st))))"
  shows "weights (delta1 (agent (snd (learn_body X buffer B g cc ac dc t te up st)))) =
           take (length (weights (delta1 (agent st)))) p"
    and "weights (delta2 (agent (snd (learn_body X buffer B g cc ac dc t te up st)))) =
           drop (length (weights (delta1 (agent st)))) p"
  using assms(1)
  by (simp_all add: assms(2,3) learn_body_def Let_def case_prod_beta critic_update_def
      delta_update_def policy_update_def agent_train_sel weights_set_training)

lemma toy_next_action':
  "dist_rsample toy_ext
     (actor_fwd toy_ext (set_training True (actor (agent toy_learner)))
        (map t_next_state (storage toy_buffer))) (Suc 0) = ([[Fin 3], [Fin 5]], 2)"
  using toy_next_action by (simp add: agent_train_sel)

lemma learn_body_fields:
  assumes "buffer_sample X buffer B (rng st) = (bt, r0)"
    and "L = fst (learn_body X buffer B g cc ac dc t te up st)"
  shows "batch L = bt"
    and "td_error1 L = t_sub (td_target (tg L))
           (critic_fwd X (critic1 (agent_train (agent st))) (map t_state bt) (map t_action bt))"
    and "td_error2 L = t_sub (td_target (tg L))
           (critic_fwd X (critic2 (agent_train (agent st))) (map t_state bt) (map t_action bt))"
    and "target_delta1 L = t_add (t_abs (td_error1 L))
           (t_mul (s_mul g (s_sub 1 (map t_done bt))) (target_delta1_s1 (tg L)))"
    and "target_delta2 L = t_add (t_abs (td_error2 L))
           (t_mul (s_mul g (s_sub 1 (map t_done bt))) (target_delta2_s1 (tg L)))"
    and "delta1_pred L =
           delta_fwd X (delta1 (agent_train (agent st))) (map t_state bt) (map t_action bt)"
    and "delta2_pred L =
           delta_fwd X (delta2 (agent_train (agent st))) (map t_state bt) (map t_action bt)"
  using assms(1)
  by (simp_all add: assms(2) learn_body_def Let_def case_prod_beta critic_update_frame)

lemma toy_td_target:
  "td_target (tg (fst (learn_body toy_ext toy_buffer 2 (1 / 2) None None None (1 / 2) (- 1)
      up toy_learner))) = [7 / 2, 1]"
  by (simp add: learn_body_tg toy_sample critic_targets_eq[OF toy_next_action])
     (simp add: toy_ext_def fl_sum_def toy_buffer_def toy_learner_def toy_agent_def toy_target_def
        toy_module_def agent_train_def set_training_def sum_last_def
        t_add_def t_mul_def t_sub_def t_min_def s_mul_def s_sub_def)

lemma learn_discor_Inr:
  assumes "kind buffer \<noteq> PrioritizedReplayBuffer"
  shows "learn_discor X buffer B g cc ac dc t te up st =
           Inr (snd (learn_body X buffer B g cc ac dc t te up st))"
  using assms by (simp add: learn_discor_def)

lemma toy_kind: "kind toy_buffer \<noteq> PrioritizedReplayBuffer"
  by (simp add: toy_buffer_def)

lemma critic_targets_weights_indep:
  "disCor_weights1 (fst (critic_targets X ag tag alpha g B t1 t2 rw ns dn r)) =
   disCor_weights1 (fst (critic_targets X ag tag2 alpha g B t1 t2 rw ns dn r))"
  "disCor_weights2 (fst (critic_targets X ag tag alpha g B t1 t2 rw ns dn r)) =
   disCor_weights2 (fst (critic_targets X ag tag2 alpha g B t1 t2 rw ns dn r))"
  by (simp_all add: critic_targets_def Let_def case_prod_beta)

lemma critic_targets_bootstrap_indep:
  assumes "actor ag2 = actor ag"
  shows "target_delta1_s1 (fst (critic_targets X ag tag alpha g B t1 t2 rw ns dn r)) =
         target_delta1_s1 (fst (critic_targets X ag2 tag alpha g B t1 t2 rw ns dn r))"
    and "target_delta2_s1 (fst (critic_targets X ag tag alpha g B t1 t2 rw ns dn r)) =
         target_delta2_s1 (fst (critic_targets X ag2 tag alpha g B t1 t2 rw ns dn r))"
  using assms by (simp_all add: critic_targets_def Let_def case_prod_beta)

lemma reset_if_done_frame:
  "buf (reset_if_done X rs) = buf rs"
  "ls (reset_if_done X rs) = ls rs"
  by (simp_all add: reset_if_done_def Let_def case_prod_beta)

lemma toy_sample_action:
  "sample_action toy_ext toy_agent [Fin (1 / 2)] 0 = Inr ([Fin 1], toy_agent, Suc 0)"
  by (simp add: sample_action_def process_state_def process_act_def set_training_def
      toy_ext_def fl_sum_def toy_agent_def toy_module_def)

lemma learn_discor_target_agent:
  assumes "learn_discor X buffer B g cc ac dc t te up st = Inr st' \<or>
           learn_discor X buffer B g cc ac dc t te up st = Inl (e, st')"
  shows "target_agent st' = target_agent st"
  using assms
  by (auto simp: learn_discor_def learn_body_target_agent split: if_splits)

lemma rollout_step_target_agent:
  assumes "rollout_step X cfg rs = Inr rs' \<or> rollout_step X cfg rs = Inl (e, rs')"
  shows "target_agent (ls rs') = target_agent (ls rs)"
  using assms
  by (auto simp: rollout_step_def Let_def case_prod_beta reset_if_done_frame
      split: sum.splits)

lemma rollout_target_agent:
  assumes "rollout X cfg n rs = Inr rs' \<or> rollout X cfg n rs = Inl (e, rs')"
  shows "target_agent (ls rs') = target_agent (ls rs)"
  using assms
proof (induction n arbitrary: rs)
  case 0
  then show ?case by simp
next
  case (Suc n)
  show ?case
  proof (cases "rollout_step X cfg rs")
    case (Inl x)
    with Suc.prems have "rollout_step X cfg rs = Inl (e, rs')" by simp
    then show ?thesis using rollout_step_target_agent by blast
  next
    case (Inr rs1)
    with Suc.prems have "rollout X cfg n rs1 = Inr rs' \<or> rollout X cfg n rs1 = Inl (e, rs')"
      by simp
    then have "target_agent (ls rs') = target_agent (ls rs1)"
      by (rule Suc.IH)
    also have "\<dots> = target_agent (ls rs)"
      using Inr rollout_step_target_agent by blast
    finally show ?thesis .
  qed
qed

lemma update_once_target_agent:
  assumes "update_once X cfg step rs = Inr rs' \<or> update_once X cfg step rs = Inl (e, rs')"
  shows "target_agent (ls rs') = target_agent (ls rs)"
proof (cases "cfg_actor_delay cfg = 0")
  case True
  with assms show ?thesis by (simp add: update_once_def)
next
  case False
  show ?thesis
  proof (cases "learn_discor X (buf rs) (cfg_batch_size cfg) (cfg_gamma cfg)
                (cfg_critic_clip cfg) (cfg_actor_clip cfg) (cfg_delta_clip cfg)
                (cfg_tau cfg) (target_entropy_val rs)
                (step mod cfg_actor_delay cfg = 0) (ls rs)")
    case (Inl x)
    obtain e1 st1 where x: "x = (e1, st1)" by (cases x)
    from assms False Inl x have "rs' = rs\<lparr>ls := st1\<rparr>"
      by (simp add: update_once_def)
    moreover have "target_agent st1 = target_agent (ls rs)"
      using Inl x learn_discor_target_agent by blast
    ultimately show ?thesis by simp
  next
    case (Inr st1)
    from assms False Inr have "rs' = rs\<lparr>ls := st1\<rparr>"
      by (simp add: update_once_def)
    moreover have "target_agent st1 = target_agent (ls rs)"
      using Inr learn_discor_target_agent by blast
    ultimately show ?thesis by simp
  qed
qed

lemma updates_target_agent:
  assumes "updates X cfg step n rs = Inr rs' \<or> updates X cfg step n rs = Inl (e, rs')"
  shows "target_agent (ls rs') = target_agent (ls rs)"
  using assms
proof (induction n arbitrary: rs)
  case 0
  then show ?case by simp
next
  case (Suc n)
  show ?case
  proof (cases "update_once X cfg step rs")
    case (Inl x)
    with Suc.prems have "update_once X cfg step rs = Inl (e, rs')" by simp
    then show ?thesis using update_once_target_agent by blast
  next
    case (Inr rs1)
    with Suc.prems
    have "updates X cfg step n rs1 = Inr rs' \<or> updates X cfg step n rs1 = Inl (e, rs')"
      by simp
    then have "target_agent (ls rs') = target_agent (ls rs1)"
      by (rule Suc.IH)
    also have "\<dots> = target_agent (ls rs)"
      using Inr update_once_target_agent by blast
    finally show ?thesis .
  qed
qed

lemma target_sync_Inr:
  assumes "target_sync cfg step rs = Inr rs'"
  shows "cfg_target_delay cfg \<noteq> 0"
    and "agent (ls rs') = agent (ls rs)"
    and "target_agent (ls rs') =
           (if step mod cfg_target_delay cfg = 0
            then soft_sync (target_agent (ls rs)) (agent (ls rs)) (cfg_tau cfg)
            else target_agent (ls rs))"
  using assms by (auto simp: target_sync_def split: if_splits)

lemma target_sync_Inl:
  assumes "target_sync cfg step rs = Inl (e, rs')"
  shows "rs' = rs"
  using assms by (auto simp: target_sync_def split: if_splits)

lemma eval_and_save_ls:
  assumes "eval_and_save X cfg step rs = Inr rs' \<or> eval_and_save X cfg step rs = Inl (e, rs')"
  shows "ls rs' = ls rs"
  using assms
  by (auto simp: eval_and_save_def Let_def case_prod_beta split: if_splits)

lemma discor_step_Inr_target:
  assumes "discor_step X cfg step rs = Inr rs'"
  shows "target_agent (ls rs') =
           (if step mod cfg_target_delay cfg = 0
            then soft_sync (target_agent (ls rs)) (agent (ls rs')) (cfg_tau cfg)
            else target_agent (ls rs))"
proof -
  from assms obtain rs1 rs2 rs3 where
    1: "rollout X cfg (nat (cfg_transitions_per_step cfg)) rs = Inr rs1" and
    2: "updates X cfg step (nat (cfg_gradient_updates_per_step cfg)) rs1 = Inr rs2" and
    3: "target_sync cfg step rs2 = Inr rs3" and
    4: "eval_and_save X cfg step rs3 = Inr rs'"
    by (auto simp: discor_step_def split: sum.splits)
  have a: "target_agent (ls rs2) = target_agent (ls rs)"
    using rollout_target_agent[OF disjI1, OF 1] updates_target_agent[OF disjI1, OF 2] by simp
  have b: "ls rs' = ls rs3"
    using eval_and_save_ls[OF disjI1, OF 4] .
  show ?thesis
    using target_sync_Inr(2,3)[OF 3] a b by simp
qed

lemma discor_step_Inl_target:
  assumes "discor_step X cfg step rs = Inl (e, rs')"
  shows "target_agent (ls rs') = target_agent (ls rs) \<or>
         (step mod cfg_target_delay cfg = 0 \<and>
          target_agent (ls rs') = soft_sync (target_agent (ls rs)) (agent (ls rs')) (cfg_tau cfg))"
proof (cases "rollout X cfg (nat (cfg_transitions_per_step cfg)) rs")
  case (Inl x)
  with assms have "rollout X cfg (nat (cfg_transitions_per_step cfg)) rs = Inl (e, rs')"
    by (simp add: discor_step_def)
  then show ?thesis using rollout_target_agent by blast
next
  case 1: (Inr rs1)
  show ?thesis
  proof (cases "updates X cfg step (nat (cfg_gradient_updates_per_step cfg)) rs1")
    case (Inl x)
    with assms 1
    have "updates X cfg step (nat (cfg_gradient_updates_per_step cfg)) rs1 = Inl (e, rs')"
      by (simp add: discor_step_def)
    then have "target_agent (ls rs') = target_agent (ls rs1)"
      using updates_target_agent by blast
    then show ?thesis
      using rollout_target_agent[OF disjI1, OF 1] by simp
  next
    case 2: (Inr rs2)
    have a: "target_agent (ls rs2) = target_agent (ls rs)"
      using rollout_target_agent[OF disjI1, OF 1] updates_target_agent[OF disjI1, OF 2]
      by simp
    show ?thesis
    proof (cases "target_sync cfg step rs2")
      case (Inl x)
      with assms 1 2 have "target_sync cfg step rs2 = Inl (e, rs')"
        by (simp add: discor_step_def)
      then have "rs' = rs2" by (rule target_sync_Inl)
      with a show ?thesis by simp
    next
      case 3: (Inr rs3)
      with assms 1 2 have "eval_and_save X cfg step rs3 = Inl (e, rs')"
        by (simp add: discor_step_def)
      then have "ls rs' = ls rs3"
        using eval_and_save_ls by blast
      then show ?thesis
        using target_sync_Inr(2,3)[OF 3] a by (simp split: if_splits)
    qed
  qed
qed

lemma discor_init_target:
  assumes "discor_init X cfg ag0 buffer tr_env te_env r = Inr rs0"
  shows "weights (critic1 (target_agent (ls rs0))) = weights (critic1 ag0)"
    and "weights (critic2 (target_agent (ls rs0))) = weights (critic2 ag0)"
    and "weights (delta1 (target_agent (ls rs0))) = weights (delta1 ag0)"
    and "weights (delta2 (target_agent (ls rs0))) = weights (delta2 ag0)"
    and "weights (critic1 (agent (ls rs0))) = weights (critic1 ag0)"
    and "weights (critic2 (agent (ls rs0))) = weights (critic2 ag0)"
    and "weights (delta1 (agent (ls rs0))) = weights (delta1 ag0)"
    and "weights (delta2 (agent (ls rs0))) = weights (delta2 ag0)"
  using assms
  by (auto simp: discor_init_def Let_def case_prod_beta hard_sync_def hard_update_def
      agent_train_sel weights_set_training split: if_splits)

lemma soft_sync_weights:
  "weights (critic1 (soft_sync tag ag tau)) =
     map2 (\<lambda>t l. t * (1 - tau) + l * tau) (weights (critic1 tag)) (weights (critic1 ag))"
  "weights (critic2 (soft_sync tag ag tau)) =
     map2 (\<lambda>t l. t * (1 - tau) + l * tau) (weights (critic2 tag)) (weights (critic2 ag))"
  "weights (delta1 (soft_sync tag ag tau)) =
     map2 (\<lambda>t l. t * (1 - tau) + l * tau) (weights (delta1 tag)) (weights (delta1 ag))"
  "weights (delta2 (soft_sync tag ag tau)) =
     map2 (\<lambda>t l. t * (1 - tau) + l * tau) (weights (delta2 tag)) (weights (delta2 ag))"
  "actor (soft_sync tag ag tau) = actor tag"
  by (simp_all add: soft_sync_def soft_update_def)

lemma discor_loop_target:
  assumes "discor_loop X cfg steps rs = Inr rs'"
  shows "\<exists>lives. length lives = length (filter (\<lambda>s. s mod cfg_target_delay cfg = 0) steps) \<and>
           target_agent (ls rs') =
             foldl (\<lambda>tag ag. soft_sync tag ag (cfg_tau cfg)) (target_agent (ls rs)) lives"
  using assms
proof (induction steps arbitrary: rs)
  case Nil
  then show ?case by simp
next
  case (Cons step steps)
  from Cons.prems obtain rs1 where
    1: "discor_step X cfg step rs = Inr rs1" and 2: "discor_loop X cfg steps rs1 = Inr rs'"
    by (auto split: sum.splits)
  from Cons.IH[OF 2] obtain lives where
    l: "length lives = length (filter (\<lambda>s. s mod cfg_target_delay cfg = 0) steps)" and
    t: "target_agent (ls rs') =
          foldl (\<lambda>tag ag. soft_sync tag ag (cfg_tau cfg)) (target_agent (ls rs1)) lives"
    by blast
  show ?case
  proof (cases "step mod cfg_target_delay cfg = 0")
    case True
    with discor_step_Inr_target[OF 1]
    have "target_agent (ls rs1) = soft_sync (target_agent (ls rs)) (agent (ls rs1)) (cfg_tau cfg)"
      by simp
    with t l True show ?thesis
      by (intro exI[of _ "agent (ls rs1) # lives"]) simp
  next
    case False
    with discor_step_Inr_target[OF 1] have "target_agent (ls rs1) = target_agent (ls rs)"
      by simp
    with t l False show ?thesis
      by (intro exI[of _ lives]) simp
  qed
qed

lemma discor_Inr_target:
  assumes "discor X cfg ag0 buffer tr_env te_env r = Inr (ag', rs)"
  shows "\<exists>rs0 lives.
           discor_init X cfg ag0 buffer tr_env te_env r = Inr rs0 \<and>
           length lives = length (filter (\<lambda>s. s mod cfg_target_delay cfg = 0) (steps_iter cfg)) \<and>
           target_agent (ls rs) =
             foldl (\<lambda>tag ag. soft_sync tag ag (cfg_tau cfg)) (target_agent (ls rs0)) lives"
proof -
  from assms obtain rs0 rs1 where
    0: "discor_init X cfg ag0 buffer tr_env te_env r = Inr rs0" and
    1: "discor_loop X cfg (steps_iter cfg) rs0 = Inr rs1" and
    2: "rs = (if cfg_save_to_disk cfg then rs1\<lparr>saved := Some (agent (ls rs1))\<rparr> else rs1)"
    by (auto simp: discor_def split: sum.splits option.splits if_splits)
  from 2 have "target_agent (ls rs) = target_agent (ls rs1)"
    by simp
  with discor_loop_target[OF 1] 0 show ?thesis
    by auto
qed

lemma toy_rollout_step:
  "\<exists>rs'. rollout_step toy_ext cfg rs = Inr rs' \<and> kind (buf rs') = kind (buf rs)"
proof -
  let ?rs0 = "reset_if_done toy_ext rs"
  obtain a ag' r' where
    s: "sample_action toy_ext (agent (ls ?rs0)) (state ?rs0) (rng (ls ?rs0)) = Inr (a, ag', r')"
    by (simp add: sample_action_def process_state_def process_act_def toy_ext_def fl_sum_def)
  have k: "kind (buffer_push toy_ext b st a rw ns d) = kind b" for b st a rw ns d
    by (simp add: toy_ext_def fl_sum_def)
  show ?thesis
    using s by (simp add: rollout_step_def Let_def case_prod_beta k reset_if_done_frame)
qed

lemma toy_discor_step:
  assumes "kind (buf rs) = ReplayBuffer"
  shows "\<exists>rs'. discor_step toy_ext toy_config step rs = Inr rs' \<and> kind (buf rs') = ReplayBuffer"
proof -
  obtain rs1 where
    r1: "rollout_step toy_ext toy_config rs = Inr rs1" and k1: "kind (buf rs1) = ReplayBuffer"
    using toy_rollout_step[of toy_config rs] assms by auto
  have 1: "rollout toy_ext toy_config (nat (cfg_transitions_per_step toy_config)) rs = Inr rs1"
    using r1 by (simp add: toy_config_def)
  have k1': "kind (buf rs1) \<noteq> PrioritizedReplayBuffer"
    using k1 by simp
  define rs2 where "rs2 = rs1\<lparr>ls := snd (learn_body toy_ext (buf rs1) (cfg_batch_size toy_config)
      (cfg_gamma toy_config) (cfg_critic_clip toy_config) (cfg_actor_clip toy_config)
      (cfg_delta_clip toy_config) (cfg_tau toy_config) (target_entropy_val rs1)
      (step mod cfg_actor_delay toy_config = 0) (ls rs1))\<rparr>"
  have a: "cfg_actor_delay toy_config \<noteq> 0"
    by (simp add: toy_config_def)
  have u: "update_once toy_ext toy_config step rs1 = Inr rs2"
    using a by (simp add: update_once_def learn_discor_Inr[OF k1'] rs2_def)
  have 2: "updates toy_ext toy_config step (nat (cfg_gradient_updates_per_step toy_config)) rs1
             = Inr rs2"
    using u by (simp add: toy_config_def)
  have k2: "kind (buf rs2) = ReplayBuffer"
    using k1 by (simp add: rs2_def)
  obtain rs3 where 3: "target_sync toy_config step rs2 = Inr rs3" and b3: "buf rs3 = buf rs2"
    by (cases "step mod cfg_target_delay toy_config = 0")
       (simp_all add: target_sync_def toy_config_def)
  obtain rs4 where 4: "eval_and_save toy_ext toy_config step rs3 = Inr rs4"
    and b4: "buf rs4 = buf rs3"
    by (simp add: eval_and_save_def toy_config_def Let_def case_prod_beta)
  have "discor_step toy_ext toy_config step rs = Inr rs4"
    by (simp add: discor_step_def 1 2 3 4)
  with b3 b4 k2 show ?thesis by simp
qed

lemma toy_discor_init:
  "\<exists>rs0. discor_init toy_ext toy_config toy_agent toy_buffer 0 0 0 = Inr rs0 \<and>
         kind (buf rs0) = ReplayBuffer"
  by (simp add: discor_init_def Let_def toy_config_def toy_ext_def fl_sum_def toy_buffer_def)

lemma toy_discor:
  "\<exists>ag' rs. discor toy_ext toy_config toy_agent toy_buffer 0 0 0 = Inr (ag', rs)"
proof -
  obtain rs0 where 0: "discor_init toy_ext toy_config toy_agent toy_buffer 0 0 0 = Inr rs0"
    and k0: "kind (buf rs0) = ReplayBuffer"
    using toy_discor_init by blast
  obtain rs1 where 1: "discor_step toy_ext toy_config 0 rs0 = Inr rs1"
    and k1: "kind (buf rs1) = ReplayBuffer"
    using toy_discor_step[OF k0] by blast
  obtain rs2 where 2: "discor_step toy_ext toy_config 1 rs1 = Inr rs2"
    using toy_discor_step[OF k1] by blast
  have "steps_iter toy_config = [0, 1]"
    by (simp add: steps_iter_def toy_config_def upt_rec)
  then have "discor_loop toy_ext toy_config (steps_iter toy_config) rs0 = Inr rs2"
    using 1 2 by simp
  with 0 show ?thesis
    by (simp add: discor_def toy_config_def)
qed

lemma toy_discor_log_to_disk:
  "discor toy_ext (toy_config\<lparr>cfg_log_to_disk := True\<rparr>) toy_agent toy_buffer 0 0 0 =
     Inl (ValueError, None)"
  by (simp add: discor_def toy_ext_def)

lemma toy_step_error:
  "discor_step toy_ext toy_config_no_eval 0 toy_run =
     Inl (ZeroDivisionError,
          toy_run\<lparr>ls := toy_learner\<lparr>target_agent := soft_sync toy_target toy_agent (1 / 2)\<rparr>\<rparr>)"
  by (simp add: discor_step_def target_sync_def eval_and_save_def toy_config_no_eval_def
      toy_config_def toy_run_def toy_learner_def)

lemma toy_run_kind: "kind (buf toy_run) = ReplayBuffer"
  by (simp add: toy_run_def toy_buffer_def)

section \<open>The DisCor weights (C1)\<close>



section \<open>The TD target (C2)\<close>

text \<open>
  C2. In every call of \<open>learn_discor\<close> the TD target is, entry by entry,
  \<open>reward + gamma * (1 - done) * (min(target_critic1(next_state, a'),
  target_critic2(next_state, a')) - alpha * logprob(a'))\<close>, where \<open>a'\<close> is a fresh sample
  from the live actor's distribution at \<open>next_state\<close> (the replayed action does not
  occur), \<open>alpha = exp(log_alpha)\<close> and \<open>logprob\<close> is the summed log-probability of
  \<open>a'\<close>. It is computed without gradient tracking: the critic step takes the gradient of
  a loss in which this value is a constant.
\<close>

theorem td_target_formula:
  assumes "shape_ok X"
    and "buffer_sample X buffer B (rng st) = (bt, r0)"
    and "dist_rsample X (actor_fwd X (set_training True (actor (agent st)))
           (map t_next_state bt)) r0 = (a', r1)"
    and "L = fst (learn_body X buffer B g cc ac dc t te up st)"
    and "lp = map sum_list (dist_log_prob X (actor_fwd X (set_training True (actor (agent st)))
           (map t_next_state bt)) a')"
    and "p = snd (optimize X cc (critic_optimizer st)
                (critic_loss_fn X (set_training True (critic1 (agent st)))
                   (set_training True (critic2 (agent st)))
                   (map t_state bt) (map t_action bt)
                   (td_target (tg L)) (disCor_weights1 (tg L)) (disCor_weights2 (tg L)))
                (weights (critic1 (agent st)) @ weights (critic2 (agent st))))"
  shows "action_s1 (tg L) = a' \<and>
         td_target (tg L) =
           spec_td_target g (exp (log_alpha st)) (map t_reward bt) (map t_done bt)
             (critic_fwd X (critic1 (target_agent st)) (map t_next_state bt) a')
             (critic_fwd X (critic2 (target_agent st)) (map t_next_state bt) a') lp \<and>
         weights (critic1 (agent (snd (learn_body X buffer B g cc ac dc t te up st)))) =
           take (length (weights (critic1 (agent st)))) p \<and>
         weights (critic2 (agent (snd (learn_body X buffer B g cc ac dc t te up st)))) =
           drop (length (weights (critic1 (agent st)))) p"
proof -
  let ?ns = "map t_next_state bt"
  let ?ag = "agent_train (agent st)"
  have rs: "dist_rsample X (actor_fwd X (actor ?ag) ?ns) r0 = (a', r1)"
    using assms(3) by (simp add: agent_train_sel)
  have la: "length a' = length bt"
    using shape_okD(3)[OF assms(1), of "actor ?ag" ?ns r0] rs by simp
  have lq: "length (critic_fwd X m ?ns a') = length bt" for m
    using shape_okD(1)[OF assms(1), of a' ?ns] la by simp
  have llp: "length lp = length bt"
    using shape_okD(4)[OF assms(1), of a' ?ns] la by (simp add: assms(5))
  have tgL: "tg L = fst (critic_targets X ?ag (target_agent st) (exp (log_alpha st)) g B
                      (temp1 st) (temp2 st) (map t_reward bt) ?ns (map t_done bt) r0)"
    using assms(2) by (simp add: assms(4) learn_body_tg)
  have a: "action_s1 (tg L) = a'"
    by (simp add: tgL critic_targets_eq[OF rs])
  have "td_target (tg L) =
          t_add (map t_reward bt) (t_mul (s_mul g (s_sub 1 (map t_done bt)))
            (t_sub (t_min (critic_fwd X (critic1 (target_agent st)) ?ns a')
                          (critic_fwd X (critic2 (target_agent st)) ?ns a'))
                   (s_mul (exp (log_alpha st)) lp)))"
    by (simp add: tgL critic_targets_eq[OF rs] assms(5) sum_last_def agent_train_sel)
  also have "\<dots> = spec_td_target g (exp (log_alpha st)) (map t_reward bt) (map t_done bt)
             (critic_fwd X (critic1 (target_agent st)) ?ns a')
             (critic_fwd X (critic2 (target_agent st)) ?ns a') lp"
    by (rule td_target_tensor_eq) (simp_all add: lq llp)
  finally have b: "td_target (tg L) = spec_td_target g (exp (log_alpha st)) (map t_reward bt)
             (map t_done bt) (critic_fwd X (critic1 (target_agent st)) ?ns a')
             (critic_fwd X (critic2 (target_agent st)) ?ns a') lp" .
  show ?thesis
    using a b learn_body_critics[OF assms(2,4,6)] by simp
qed

theorem td_target_formula_witness:
  "shape_ok toy_ext \<and>
   buffer_sample toy_ext toy_buffer 2 (rng toy_learner) = (storage toy_buffer, Suc 0) \<and>
   action_s1 (tg (fst (learn_body toy_ext toy_buffer 2 (1 / 2) None None None (1 / 2) (- 1)
      True toy_learner))) = [[Fin 3], [Fin 5]] \<and>
   td_target (tg (fst (learn_body toy_ext toy_buffer 2 (1 / 2) None None None (1 / 2) (- 1)
      True toy_learner))) = [7 / 2, 1]"
proof -
  note w = td_target_formula[OF shape_ok_toy toy_sample toy_next_action' refl refl refl,
      of "1 / 2" None None None "1 / 2" "- 1" True]
  have "spec_td_target (1 / 2) (exp (log_alpha toy_learner))
          (map t_reward (storage toy_buffer)) (map t_done (storage toy_buffer))
          (critic_fwd toy_ext (critic1 (target_agent toy_learner))
             (map t_next_state (storage toy_buffer)) [[Fin 3], [Fin 5]])
          (critic_fwd toy_ext (critic2 (target_agent toy_learner))
             (map t_next_state (storage toy_buffer)) [[Fin 3], [Fin 5]])
          (map sum_list (dist_log_prob toy_ext
             (actor_fwd toy_ext (set_training True (actor (agent toy_learner)))
                (map t_next_state (storage toy_buffer))) [[Fin 3], [Fin 5]])) = [7 / 2, 1]"
    by (simp add: spec_td_target_def toy_ext_def fl_sum_def toy_buffer_def toy_learner_def toy_agent_def
        toy_target_def toy_module_def set_training_def)
  with w[THEN conjunct1] w[THEN conjunct2, THEN conjunct1] shape_ok_toy toy_sample
  show ?thesis by simp
qed

section \<open>The delta target (C3)\<close>

text \<open>
  C3. In every call of \<open>learn_discor\<close> the regression target of delta network \<open>k\<close> is
  \<open>|TD_error_k| + gamma * (1 - done) * target_delta_k(next_state, a')\<close>, where
  \<open>target_delta_k\<close> is the target agent's delta network, \<open>a'\<close> is the next-action sample
  of the TD target, and \<open>TD_error_k\<close> is the TD target minus the prediction of live
  critic \<open>k\<close>, with the parameters it has before the critic step, at the replayed
  \<open>(state, action)\<close>. It is computed without gradient: the delta step takes the gradient
  of a loss in which the two targets are constants.
\<close>

theorem delta_target_formula:
  assumes "shape_ok X"
    and "buffer_sample X buffer B (rng st) = (bt, r0)"
    and "dist_rsample X (actor_fwd X (set_training True (actor (agent st)))
           (map t_next_state bt)) r0 = (a', r1)"
    and "L = fst (learn_body X buffer B g cc ac dc t te up st)"
    and "p = snd (optimize X dc (delta_optimizer st)
                (delta_loss_fn X (set_training True (delta1 (agent st)))
                   (set_training True (delta2 (agent st)))
                   (map t_state bt) (map t_action bt)
                   (target_delta1 L) (target_delta2 L))
                (weights (delta1 (agent st)) @ weights (delta2 (agent st))))"
  shows "action_s1 (tg L) = a' \<and>
         td_error1 L = spec_td_error (td_target (tg L))
            (critic_fwd X (set_training True (critic1 (agent st)))
               (map t_state bt) (map t_action bt)) \<and>
         td_error2 L = spec_td_error (td_target (tg L))
            (critic_fwd X (set_training True (critic2 (agent st)))
               (map t_state bt) (map t_action bt)) \<and>
         target_delta1 L = spec_delta_target g (map t_done bt) (td_error1 L)
            (delta_fwd X (delta1 (target_agent st)) (map t_next_state bt) a') \<and>
         target_delta2 L = spec_delta_target g (map t_done bt) (td_error2 L)
            (delta_fwd X (delta2 (target_agent st)) (map t_next_state bt) a') \<and>
         weights (delta1 (agent (snd (learn_body X buffer B g cc ac dc t te up st)))) =
           take (length (weights (delta1 (agent st)))) p \<and>
         weights (delta2 (agent (snd (learn_body X buffer B g cc ac dc t te up st)))) =
           drop (length (weights (delta1 (agent st)))) p"
proof -
  let ?ns = "map t_next_state bt" and ?sb = "map t_state bt" and ?ab = "map t_action bt"
  let ?ag = "agent_train (agent st)"
  have rs: "dist_rsample X (actor_fwd X (actor ?ag) ?ns) r0 = (a', r1)"
    using assms(3) by (simp add: agent_train_sel)
  have la: "length a' = length bt"
    using shape_okD(3)[OF assms(1), of "actor ?ag" ?ns r0] rs by simp
  have lq: "length (critic_fwd X m ?ns a') = length bt" for m
    using shape_okD(1)[OF assms(1), of a' ?ns] la by simp
  have lc: "length (critic_fwd X m ?sb ?ab) = length bt" for m
    using shape_okD(1)[OF assms(1), of ?ab ?sb] by simp
  have ld: "length (delta_fwd X m ?ns a') = length bt" for m
    using shape_okD(2)[OF assms(1), of a' ?ns] la by simp
  have llp: "length (sum_last (dist_log_prob X (actor_fwd X (actor ?ag) ?ns) a')) = length bt"
    using shape_okD(4)[OF assms(1), of a' ?ns] la by (simp add: sum_last_def)
  have tgL: "tg L = fst (critic_targets X ?ag (target_agent st) (exp (log_alpha st)) g B
                      (temp1 st) (temp2 st) (map t_reward bt) ?ns (map t_done bt) r0)"
    using assms(2) by (simp add: assms(4) learn_body_tg)
  have a: "action_s1 (tg L) = a'"
    and d1: "target_delta1_s1 (tg L) = delta_fwd X (delta1 (target_agent st)) ?ns a'"
    and d2: "target_delta2_s1 (tg L) = delta_fwd X (delta2 (target_agent st)) ?ns a'"
    by (simp_all add: tgL critic_targets_eq[OF rs])
  have lt: "length (td_target (tg L)) = length bt"
    by (simp add: tgL critic_targets_eq[OF rs] t_add_def t_mul_def t_sub_def t_min_def
        s_mul_def s_sub_def lq llp)
  have e1: "td_error1 L = t_sub (td_target (tg L)) (critic_fwd X (critic1 ?ag) ?sb ?ab)"
    and e2: "td_error2 L = t_sub (td_target (tg L)) (critic_fwd X (critic2 ?ag) ?sb ?ab)"
    and t1: "target_delta1 L = t_add (t_abs (td_error1 L))
              (t_mul (s_mul g (s_sub 1 (map t_done bt))) (target_delta1_s1 (tg L)))"
    and t2: "target_delta2 L = t_add (t_abs (td_error2 L))
              (t_mul (s_mul g (s_sub 1 (map t_done bt))) (target_delta2_s1 (tg L)))"
    using learn_body_fields[OF assms(2,4)] by simp_all
  have le1: "length (td_error1 L) = length bt" and le2: "length (td_error2 L) = length bt"
    by (simp_all add: e1 e2 t_sub_def lt lc)
  have E1: "td_error1 L = spec_td_error (td_target (tg L))
              (critic_fwd X (set_training True (critic1 (agent st))) ?sb ?ab)"
    unfolding e1 agent_train_sel by (rule td_error_tensor_eq) (simp add: lt lc)
  have E2: "td_error2 L = spec_td_error (td_target (tg L))
              (critic_fwd X (set_training True (critic2 (agent st))) ?sb ?ab)"
    unfolding e2 agent_train_sel by (rule td_error_tensor_eq) (simp add: lt lc)
  have T1: "target_delta1 L = spec_delta_target g (map t_done bt) (td_error1 L)
              (delta_fwd X (delta1 (target_agent st)) ?ns a')"
    unfolding t1 d1 by (rule delta_target_tensor_eq) (simp_all add: le1 ld)
  have T2: "target_delta2 L = spec_delta_target g (map t_done bt) (td_error2 L)
              (delta_fwd X (delta2 (target_agent st)) ?ns a')"
    unfolding t2 d2 by (rule delta_target_tensor_eq) (simp_all add: le2 ld)
  from a E1 E2 T1 T2 learn_body_deltas[OF assms(2,4,5)] show ?thesis by blast
qed

theorem delta_target_formula_witness:
  "shape_ok toy_ext \<and>
   buffer_sample toy_ext toy_buffer 2 (rng toy_learner) = (storage toy_buffer, Suc 0) \<and>
   td_error1 (fst (learn_body toy_ext toy_buffer 2 (1 / 2) None None None (1 / 2) (- 1)
      True toy_learner)) = [3 / 2, - 3] \<and>
   target_delta1 (fst (learn_body toy_ext toy_buffer 2 (1 / 2) None None None (1 / 2) (- 1)
      True toy_learner)) = [- 3 / 2, 3]"
proof -
  note w = delta_target_formula[OF shape_ok_toy toy_sample toy_next_action' refl refl,
      of "1 / 2" None None None "1 / 2" "- 1" True]
  have e: "td_error1 (fst (learn_body toy_ext toy_buffer 2 (1 / 2) None None None (1 / 2) (- 1)
      True toy_learner)) = [3 / 2, - 3]"
    unfolding w[THEN conjunct2, THEN conjunct1] toy_td_target
    by (simp add: spec_td_error_def toy_ext_def fl_sum_def toy_buffer_def toy_learner_def toy_agent_def
        toy_module_def set_training_def)
  have "target_delta1 (fst (learn_body toy_ext toy_buffer 2 (1 / 2) None None None (1 / 2) (- 1)
      True toy_learner)) = [- 3 / 2, 3]"
    unfolding w[THEN conjunct2, THEN conjunct2, THEN conjunct2, THEN conjunct1] e
    by (simp add: spec_delta_target_def toy_ext_def fl_sum_def toy_buffer_def toy_learner_def
        toy_target_def toy_module_def)
  with e shape_ok_toy toy_sample show ?thesis by simp
qed

section \<open>Calls without a policy update (C4)\<close>

text \<open>
  C4. After a call of \<open>learn_discor\<close> with \<open>update_policy=False\<close> the actor's parameters
  and \<open>log_alpha\<close> are exactly what they were before the call (and so are the states of
  the actor's and \<open>log_alpha\<close>'s optimizers), whether the call returns or raises.
\<close>

theorem no_policy_update_frame:
  assumes "learn_discor X buffer B g cc ac dc t te False st = Inr st' \<or>
           learn_discor X buffer B g cc ac dc t te False st = Inl (e, st')"
  shows "weights (actor (agent st')) = weights (actor (agent st)) \<and>
         log_alpha st' = log_alpha st \<and>
         actor_optimizer st' = actor_optimizer st \<and>
         log_alpha_optimizer st' = log_alpha_optimizer st"
proof (cases "kind buffer = PrioritizedReplayBuffer")
  case True
  with assms have "st' = st"
    by (simp add: learn_discor_def)
  then show ?thesis by simp
next
  case False
  with assms have "st' = snd (learn_body X buffer B g cc ac dc t te False st)"
    by (simp add: learn_discor_def)
  then show ?thesis
    by (simp add: learn_body_no_policy weights_set_training)
qed

theorem no_policy_update_frame_witness:
  "\<exists>st'. learn_discor toy_ext toy_buffer 2 (1 / 2) None None None (1 / 2) (- 1) False
           toy_learner = Inr st' \<and>
         weights (actor (agent st')) = [2] \<and> log_alpha st' = 0 \<and>
         actor_optimizer st' = 0 \<and> log_alpha_optimizer st' = 0"
proof -
  obtain st' where r: "learn_discor toy_ext toy_buffer 2 (1 / 2) None None None (1 / 2) (- 1)
      False toy_learner = Inr st'"
    using learn_discor_Inr[OF toy_kind] by blast
  from no_policy_update_frame[OF disjI1, OF r]
  have "weights (actor (agent st')) = [2] \<and> log_alpha st' = 0 \<and>
         actor_optimizer st' = 0 \<and> log_alpha_optimizer st' = 0"
    by (simp add: toy_learner_def toy_agent_def toy_module_def)
  with r show ?thesis by blast
qed

section \<open>The buffer precondition (C5)\<close>

text \<open>
  C5. A call of \<open>learn_discor\<close> with a prioritized replay buffer fails with an
  \<open>AssertionError\<close> and leaves the whole state, random number generators included, as
  it was: no batch has been sampled and nothing has been mutated. With a uniform buffer
  the assertion passes and the call returns.
\<close>

theorem prioritized_buffer_rejected:
  "(kind buffer = PrioritizedReplayBuffer \<longrightarrow>
      learn_discor X buffer B g cc ac dc t te up st = Inl (AssertionError, st)) \<and>
   (kind buffer = ReplayBuffer \<longrightarrow>
      (\<exists>st'. learn_discor X buffer B g cc ac dc t te up st = Inr st'))"
  by (simp add: learn_discor_def)

theorem prioritized_buffer_rejected_witness:
  "kind (toy_buffer\<lparr>kind := PrioritizedReplayBuffer\<rparr>) = PrioritizedReplayBuffer \<and>
   learn_discor toy_ext (toy_buffer\<lparr>kind := PrioritizedReplayBuffer\<rparr>) 2 (1 / 2) None None
     None (1 / 2) (- 1) True toy_learner = Inl (AssertionError, toy_learner) \<and>
   kind toy_buffer = ReplayBuffer \<and>
   (\<exists>st'. learn_discor toy_ext toy_buffer 2 (1 / 2) None None None (1 / 2) (- 1) True
            toy_learner = Inr st')"
proof -
  have k1: "kind (toy_buffer\<lparr>kind := PrioritizedReplayBuffer\<rparr>) = PrioritizedReplayBuffer"
    by simp
  have k2: "kind toy_buffer = ReplayBuffer"
    by (simp add: toy_buffer_def)
  from prioritized_buffer_rejected[of "toy_buffer\<lparr>kind := PrioritizedReplayBuffer\<rparr>"
      toy_ext 2 "1 / 2" None None None "1 / 2" "- 1" True toy_learner]
    prioritized_buffer_rejected[of toy_buffer toy_ext 2 "1 / 2" None None None "1 / 2" "- 1"
      True toy_learner] k1 k2
  show ?thesis by blast
qed

section \<open>Infinite bootstrap (C6)\<close>

text \<open>
  C6. In the rollout loop of \<open>discor\<close> with \<open>infinite_bootstrap\<close> enabled, a transition
  taken when \<open>steps_this_ep + 1 == max_episode_steps\<close> (the counter as it stands after
  the reset of that iteration, if any) is pushed to the buffer with \<open>done=False\<close>,
  whatever \<open>done\<close> the environment's step returned.
\<close>

theorem infinite_bootstrap_push:
  assumes "cfg_infinite_bootstrap cfg"
    and "rs0 = reset_if_done X rs"
    and "steps_this_ep rs0 + 1 = cfg_max_episode_steps cfg"
    and "sample_action X (agent (ls rs0)) (state rs0) (rng (ls rs0)) = Inr (action, ag, r)"
    and "env_step X (train_env rs0) action = ((next_state, reward, env_done), env1)"
  shows "\<exists>rs'. rollout_step X cfg rs = Inr rs' \<and>
           buf rs' = buffer_push X (buf rs) (state rs0) action reward next_state False"
  using assms(1,3,4,5) unfolding assms(2)
  by (simp add: rollout_step_def Let_def reset_if_done_frame)

theorem infinite_bootstrap_push_witness:
  "cfg_infinite_bootstrap toy_config \<and>
   steps_this_ep (reset_if_done toy_ext toy_run) + 1 = cfg_max_episode_steps toy_config \<and>
   env_step toy_ext (train_env (reset_if_done toy_ext toy_run)) [Fin 1] =
     (([Fin 3], 1, True), 3) \<and>
   (\<exists>rs'. rollout_step toy_ext toy_config toy_run = Inr rs' \<and>
      buf rs' = buffer_push toy_ext toy_buffer [Fin (1 / 2)] [Fin 1] 1 [Fin 3] False)"
proof -
  have h1: "cfg_infinite_bootstrap toy_config"
    by (simp add: toy_config_def)
  have h3: "steps_this_ep (reset_if_done toy_ext toy_run) + 1 = cfg_max_episode_steps toy_config"
    by (simp add: reset_if_done_def toy_run_def toy_config_def)
  have h4: "sample_action toy_ext (agent (ls (reset_if_done toy_ext toy_run)))
              (state (reset_if_done toy_ext toy_run))
              (rng (ls (reset_if_done toy_ext toy_run))) = Inr ([Fin 1], toy_agent, Suc 0)"
    using toy_sample_action by (simp add: reset_if_done_def toy_run_def toy_learner_def)
  have h5: "env_step toy_ext (train_env (reset_if_done toy_ext toy_run)) [Fin 1] =
              (([Fin 3], 1, True), 3)"
    by (simp add: reset_if_done_def toy_run_def toy_ext_def fl_sum_def)
  have s: "state (reset_if_done toy_ext toy_run) = [Fin (1 / 2)]" "buf toy_run = toy_buffer"
    by (simp_all add: reset_if_done_def toy_run_def)
  from infinite_bootstrap_push[OF h1 refl h3 h4 h5] h1 h3 h5 s
  show ?thesis by simp
qed

section \<open>The temperature update (C7)\<close>

text \<open>
  C7. Every call of \<open>learn_discor\<close> (on a non-empty batch from a uniform buffer) returns
  with each temperature updated once by \<open>temp_k := temp_k * (1 - tau) + tau *
  mean(delta_k_pred)\<close>, where \<open>delta_k_pred\<close> is the prediction of the live delta network
  \<open>k\<close> at the batch \<open>(state, action)\<close>; starting from \<open>init_temp\<close> this gives
  \<open>init_temp * (1 - tau) + tau * mean(delta_k_pred)\<close>.
\<close>

theorem temperature_update:
  assumes "shape_ok X"
    and "kind buffer \<noteq> PrioritizedReplayBuffer"
    and "buffer_sample X buffer B (rng st) = (bt, r0)"
    and "bt \<noteq> []"
    and "L = fst (learn_body X buffer B g cc ac dc t te up st)"
  shows "\<exists>st'. learn_discor X buffer B g cc ac dc t te up st = Inr st' \<and>
           temp1 st' = temp1 st * (1 - t) + t * (sum_list (delta1_pred L) / real (length bt)) \<and>
           temp2 st' = temp2 st * (1 - t) + t * (sum_list (delta2_pred L) / real (length bt)) \<and>
           delta1_pred L = delta_fwd X (set_training True (delta1 (agent st)))
                             (map t_state bt) (map t_action bt) \<and>
           delta2_pred L = delta_fwd X (set_training True (delta2 (agent st)))
                             (map t_state bt) (map t_action bt)"
proof -
  let ?sb = "map t_state bt" and ?ab = "map t_action bt"
  have ld: "length (delta_fwd X m ?sb ?ab) = length bt" for m
    using shape_okD(2)[OF assms(1), of ?ab ?sb] by simp
  have p1: "delta1_pred L = delta_fwd X (set_training True (delta1 (agent st))) ?sb ?ab"
    and p2: "delta2_pred L = delta_fwd X (set_training True (delta2 (agent st))) ?sb ?ab"
    using learn_body_fields(6,7)[OF assms(3,5)] by (simp_all add: agent_train_sel)
  let ?st' = "snd (learn_body X buffer B g cc ac dc t te up st)"
  have r: "learn_discor X buffer B g cc ac dc t te up st = Inr ?st'"
    by (rule learn_discor_Inr[OF assms(2)])
  have T1: "temp1 ?st' =
          temp1 st * (1 - t) + t * (sum_list (delta1_pred L) / real (length bt))"
    and T2: "temp2 ?st' =
          temp2 st * (1 - t) + t * (sum_list (delta2_pred L) / real (length bt))"
    by (simp_all add: learn_body_temps[OF assms(3)] p1 p2 t_mean_def ld agent_train_sel)
  show ?thesis
    by (intro exI[of _ ?st'] conjI r T1 T2 p1 p2)
qed

theorem temperature_update_witness:
  "shape_ok toy_ext \<and> kind toy_buffer \<noteq> PrioritizedReplayBuffer \<and>
   buffer_sample toy_ext toy_buffer 2 (rng toy_learner) = (storage toy_buffer, Suc 0) \<and>
   storage toy_buffer \<noteq> [] \<and>
   (\<exists>st'. learn_discor toy_ext toy_buffer 2 (1 / 2) None None None (1 / 2) (- 1) True
             toy_learner = Inr st' \<and> temp1 st' = 11 / 2 \<and> temp2 st' = 6)"
proof -
  have ne: "storage toy_buffer \<noteq> []" by (simp add: toy_buffer_def)
  from temperature_update[OF shape_ok_toy toy_kind toy_sample ne refl,
      of "1 / 2" None None None "1 / 2" "- 1" True]
  obtain st' where
    r: "learn_discor toy_ext toy_buffer 2 (1 / 2) None None None (1 / 2) (- 1) True
          toy_learner = Inr st'"
    and t1: "temp1 st' = temp1 toy_learner * (1 - 1 / 2) + 1 / 2 *
          (sum_list (delta_fwd toy_ext (set_training True (delta1 (agent toy_learner)))
             (map t_state (storage toy_buffer)) (map t_action (storage toy_buffer)))
           / real (length (storage toy_buffer)))"
    and t2: "temp2 st' = temp2 toy_learner * (1 - 1 / 2) + 1 / 2 *
          (sum_list (delta_fwd toy_ext (set_training True (delta2 (agent toy_learner)))
             (map t_state (storage toy_buffer)) (map t_action (storage toy_buffer)))
           / real (length (storage toy_buffer)))"
    by auto
  have "temp1 st' = 11 / 2" "temp2 st' = 6"
    unfolding t1 t2
    by (simp_all add: toy_ext_def fl_sum_def toy_buffer_def toy_learner_def toy_agent_def toy_module_def
        set_training_def)
  with r shape_ok_toy toy_kind toy_sample ne show ?thesis by simp
qed

section \<open>Live and target delta networks (C8)\<close>

text \<open>
  C8. In every call of \<open>learn_discor\<close> the delta forward passes inside the reweighting
  softmax use the live agent's \<open>delta1\<close>/\<open>delta2\<close>, and the bootstrap term of the delta
  target uses the target agent's \<open>delta1\<close>/\<open>delta2\<close>: the weights are the softmax of the
  live networks' outputs and do not change with the target agent, the bootstrap terms
  are the target networks' outputs and do not change with the live delta networks.
\<close>

theorem live_target_asymmetry:
  assumes "shape_ok X"
    and "buffer_sample X buffer B (rng st) = (bt, r0)"
    and "dist_rsample X (actor_fwd X (set_training True (actor (agent st)))
           (map t_next_state bt)) r0 = (a', r1)"
    and "L = fst (learn_body X buffer B g cc ac dc t te up st)"
    and "L1 = fst (learn_body X buffer B g cc ac dc t te up (st\<lparr>target_agent := tag2\<rparr>))"
    and "L2 = fst (learn_body X buffer B g cc ac dc t te up
                     (st\<lparr>agent := (agent st)\<lparr>delta1 := m1, delta2 := m2\<rparr>\<rparr>))"
  shows "disCor_weights1 (tg L) =
           map (\<lambda>w. real_of_int B * w)
             (softmax (spec_logits g (temp1 st) (map t_done bt)
                (delta_fwd X (set_training True (delta1 (agent st))) (map t_next_state bt) a'))) \<and>
         disCor_weights2 (tg L) =
           map (\<lambda>w. real_of_int B * w)
             (softmax (spec_logits g (temp2 st) (map t_done bt)
                (delta_fwd X (set_training True (delta2 (agent st))) (map t_next_state bt) a'))) \<and>
         target_delta1_s1 (tg L) = delta_fwd X (delta1 (target_agent st)) (map t_next_state bt) a' \<and>
         target_delta2_s1 (tg L) = delta_fwd X (delta2 (target_agent st)) (map t_next_state bt) a' \<and>
         disCor_weights1 (tg L1) = disCor_weights1 (tg L) \<and>
         disCor_weights2 (tg L1) = disCor_weights2 (tg L) \<and>
         target_delta1_s1 (tg L2) = target_delta1_s1 (tg L) \<and>
         target_delta2_s1 (tg L2) = target_delta2_s1 (tg L)"
proof -
  let ?ns = "map t_next_state bt" and ?dn = "map t_done bt"
  let ?ag = "agent_train (agent st)"
  have rs: "dist_rsample X (actor_fwd X (actor ?ag) ?ns) r0 = (a', r1)"
    using assms(3) by (simp add: agent_train_sel)
  have la: "length a' = length bt"
    using shape_okD(3)[OF assms(1), of "actor ?ag" ?ns r0] rs by simp
  have ld: "length (delta_fwd X m ?ns a') = length ?dn" for m
    using shape_okD(2)[OF assms(1), of a' ?ns] la by simp
  have tgL: "tg L = fst (critic_targets X ?ag (target_agent st) (exp (log_alpha st)) g B
                      (temp1 st) (temp2 st) (map t_reward bt) ?ns ?dn r0)"
    using assms(2) by (simp add: assms(4) learn_body_tg)
  have tgL1: "tg L1 = fst (critic_targets X ?ag tag2 (exp (log_alpha st)) g B
                      (temp1 st) (temp2 st) (map t_reward bt) ?ns ?dn r0)"
    using assms(2) by (simp add: assms(5) learn_body_tg)
  have tgL2: "tg L2 = fst (critic_targets X
                      (agent_train ((agent st)\<lparr>delta1 := m1, delta2 := m2\<rparr>))
                      (target_agent st) (exp (log_alpha st)) g B
                      (temp1 st) (temp2 st) (map t_reward bt) ?ns ?dn r0)"
    using assms(2) by (simp add: assms(6) learn_body_tg)
  have w1: "disCor_weights1 (tg L) = map (\<lambda>w. real_of_int B * w)
              (softmax (spec_logits g (temp1 st) ?dn
                 (delta_fwd X (set_training True (delta1 (agent st))) ?ns a')))"
    and w2: "disCor_weights2 (tg L) = map (\<lambda>w. real_of_int B * w)
              (softmax (spec_logits g (temp2 st) ?dn
                 (delta_fwd X (set_training True (delta2 (agent st))) ?ns a')))"
    by (simp_all add: tgL critic_targets_eq[OF rs] logits_tensor_eq[OF ld] s_mul_def
        agent_train_sel)
  have b1: "target_delta1_s1 (tg L) = delta_fwd X (delta1 (target_agent st)) ?ns a'"
    and b2: "target_delta2_s1 (tg L) = delta_fwd X (delta2 (target_agent st)) ?ns a'"
    by (simp_all add: tgL critic_targets_eq[OF rs])
  have i1: "disCor_weights1 (tg L1) = disCor_weights1 (tg L)"
    and i2: "disCor_weights2 (tg L1) = disCor_weights2 (tg L)"
    unfolding tgL tgL1 by (rule critic_targets_weights_indep)+
  have act: "actor (agent_train ((agent st)\<lparr>delta1 := m1, delta2 := m2\<rparr>)) = actor ?ag"
    by (simp add: agent_train_sel)
  have i3: "target_delta1_s1 (tg L2) = target_delta1_s1 (tg L)"
    and i4: "target_delta2_s1 (tg L2) = target_delta2_s1 (tg L)"
    unfolding tgL tgL2 by (rule critic_targets_bootstrap_indep[OF act, symmetric])+
  from w1 w2 b1 b2 i1 i2 i3 i4 show ?thesis by blast
qed

theorem live_target_asymmetry_witness:
  "shape_ok toy_ext \<and>
   buffer_sample toy_ext toy_buffer 2 (rng toy_learner) = (storage toy_buffer, Suc 0) \<and>
   target_delta1_s1 (tg (fst (learn_body toy_ext toy_buffer 2 (1 / 2) None None None (1 / 2)
      (- 1) True toy_learner))) = [- 6, - 9] \<and>
   disCor_weights1 (tg (fst (learn_body toy_ext toy_buffer 2 (1 / 2) None None None (1 / 2)
      (- 1) True toy_learner))) =
     [2 * (exp (1 / 10) / (exp (1 / 10) + 1)), 2 * (1 / (exp (1 / 10) + 1))] \<and>
   disCor_weights1 (tg (fst (learn_body toy_ext toy_buffer 2 (1 / 2) None None None (1 / 2)
      (- 1) True (toy_learner\<lparr>target_agent := toy_agent\<rparr>)))) =
   disCor_weights1 (tg (fst (learn_body toy_ext toy_buffer 2 (1 / 2) None None None (1 / 2)
      (- 1) True toy_learner))) \<and>
   target_delta1_s1 (tg (fst (learn_body toy_ext toy_buffer 2 (1 / 2) None None None (1 / 2)
      (- 1) True (toy_learner\<lparr>agent := (agent toy_learner)\<lparr>delta1 := toy_module 7,
         delta2 := toy_module 8\<rparr>\<rparr>)))) =
   target_delta1_s1 (tg (fst (learn_body toy_ext toy_buffer 2 (1 / 2) None None None (1 / 2)
      (- 1) True toy_learner)))"
proof -
  note w = live_target_asymmetry[OF shape_ok_toy toy_sample toy_next_action' refl refl refl,
      where g = "1 / 2" and cc = None and ac = None and dc = None and t = "1 / 2"
        and te = "- 1" and up = True and ?tag2.0 = toy_agent
        and ?m1.0 = "toy_module 7" and ?m2.0 = "toy_module 8"]
  have b: "target_delta1_s1 (tg (fst (learn_body toy_ext toy_buffer 2 (1 / 2) None None None
      (1 / 2) (- 1) True toy_learner))) = [- 6, - 9]"
    unfolding w[THEN conjunct2, THEN conjunct2, THEN conjunct1]
    by (simp add: toy_ext_def fl_sum_def toy_buffer_def toy_learner_def toy_target_def toy_module_def)
  have a: "disCor_weights1 (tg (fst (learn_body toy_ext toy_buffer 2 (1 / 2) None None None
      (1 / 2) (- 1) True toy_learner))) =
     [2 * (exp (1 / 10) / (exp (1 / 10) + 1)), 2 * (1 / (exp (1 / 10) + 1))]"
    unfolding w[THEN conjunct1]
    by (simp add: softmax_def spec_logits_def toy_ext_def fl_sum_def toy_buffer_def toy_learner_def
        toy_agent_def toy_module_def set_training_def)
  from a b shape_ok_toy toy_sample
    w[THEN conjunct2, THEN conjunct2, THEN conjunct2, THEN conjunct2, THEN conjunct1]
    w[THEN conjunct2, THEN conjunct2, THEN conjunct2, THEN conjunct2, THEN conjunct2,
      THEN conjunct2, THEN conjunct1]
  show ?thesis by simp
qed

section \<open>The target agent (C9)\<close>

text \<open>
  C9. Throughout a run of \<open>discor\<close> the target agent's \<open>critic1\<close>, \<open>critic2\<close>, \<open>delta1\<close>
  and \<open>delta2\<close> parameters are written only by the hard synchronisation of the setup and
  by the soft update \<open>target := target * (1 - tau) + live * tau\<close>, which an iteration
  of the loop performs exactly when \<open>step % target_delay == 0\<close>. No gradient step
  writes them: \<open>learn_discor\<close>, which holds all optimizer steps, returns the target agent
  it was given, and so do the rollout and the evaluation.
\<close>

theorem target_agent_schedule:
  "(discor X cfg ag0 buffer tr_env te_env r = Inr (ag', rs) \<longrightarrow>
      (\<exists>rs0 lives.
          discor_init X cfg ag0 buffer tr_env te_env r = Inr rs0 \<and>
          weights (critic1 (target_agent (ls rs0))) = weights (critic1 ag0) \<and>
          weights (critic2 (target_agent (ls rs0))) = weights (critic2 ag0) \<and>
          weights (delta1 (target_agent (ls rs0))) = weights (delta1 ag0) \<and>
          weights (delta2 (target_agent (ls rs0))) = weights (delta2 ag0) \<and>
          length lives =
            length (filter (\<lambda>s. s mod cfg_target_delay cfg = 0) (steps_iter cfg)) \<and>
          target_agent (ls rs) =
            foldl (\<lambda>tag ag. soft_sync tag ag (cfg_tau cfg)) (target_agent (ls rs0)) lives)) \<and>
   (discor_step X cfg step rs1 = Inr rs2 \<longrightarrow>
      target_agent (ls rs2) =
        (if step mod cfg_target_delay cfg = 0
         then soft_sync (target_agent (ls rs1)) (agent (ls rs2)) (cfg_tau cfg)
         else target_agent (ls rs1))) \<and>
   (discor_step X cfg step rs1 = Inl (e1, rs3) \<longrightarrow>
      target_agent (ls rs3) = target_agent (ls rs1) \<or>
      (step mod cfg_target_delay cfg = 0 \<and>
       target_agent (ls rs3) =
         soft_sync (target_agent (ls rs1)) (agent (ls rs3)) (cfg_tau cfg))) \<and>
   (learn_discor X buffer B g cc ac dc t te up st = Inr st' \<or>
    learn_discor X buffer B g cc ac dc t te up st = Inl (e2, st') \<longrightarrow>
      target_agent st' = target_agent st) \<and>
   weights (critic1 (soft_sync tag ag tau)) =
     map2 (\<lambda>t l. t * (1 - tau) + l * tau) (weights (critic1 tag)) (weights (critic1 ag)) \<and>
   weights (critic2 (soft_sync tag ag tau)) =
     map2 (\<lambda>t l. t * (1 - tau) + l * tau) (weights (critic2 tag)) (weights (critic2 ag)) \<and>
   weights (delta1 (soft_sync tag ag tau)) =
     map2 (\<lambda>t l. t * (1 - tau) + l * tau) (weights (delta1 tag)) (weights (delta1 ag)) \<and>
   weights (delta2 (soft_sync tag ag tau)) =
     map2 (\<lambda>t l. t * (1 - tau) + l * tau) (weights (delta2 tag)) (weights (delta2 ag)) \<and>
   actor (soft_sync tag ag tau) = actor tag"
proof -
  have A: "\<exists>rs0 lives.
          discor_init X cfg ag0 buffer tr_env te_env r = Inr rs0 \<and>
          weights (critic1 (target_agent (ls rs0))) = weights (critic1 ag0) \<and>
          weights (critic2 (target_agent (ls rs0))) = weights (critic2 ag0) \<and>
          weights (delta1 (target_agent (ls rs0))) = weights (delta1 ag0) \<and>
          weights (delta2 (target_agent (ls rs0))) = weights (delta2 ag0) \<and>
          length lives =
            length (filter (\<lambda>s. s mod cfg_target_delay cfg = 0) (steps_iter cfg)) \<and>
          target_agent (ls rs) =
            foldl (\<lambda>tag ag. soft_sync tag ag (cfg_tau cfg)) (target_agent (ls rs0)) lives"
    if "discor X cfg ag0 buffer tr_env te_env r = Inr (ag', rs)"
  proof -
    from discor_Inr_target[OF that] obtain rs0 lives where
      0: "discor_init X cfg ag0 buffer tr_env te_env r = Inr rs0" and
      l: "length lives =
            length (filter (\<lambda>s. s mod cfg_target_delay cfg = 0) (steps_iter cfg))" and
      t: "target_agent (ls rs) =
            foldl (\<lambda>tag ag. soft_sync tag ag (cfg_tau cfg)) (target_agent (ls rs0)) lives"
      by blast
    show ?thesis
      by (intro exI[of _ rs0] exI[of _ lives] conjI 0 l t discor_init_target(1-4)[OF 0])
  qed
  have B: "target_agent (ls rs2) =
        (if step mod cfg_target_delay cfg = 0
         then soft_sync (target_agent (ls rs1)) (agent (ls rs2)) (cfg_tau cfg)
         else target_agent (ls rs1))"
    if "discor_step X cfg step rs1 = Inr rs2"
    using that by (rule discor_step_Inr_target)
  have C: "target_agent (ls rs3) = target_agent (ls rs1) \<or>
      (step mod cfg_target_delay cfg = 0 \<and>
       target_agent (ls rs3) =
         soft_sync (target_agent (ls rs1)) (agent (ls rs3)) (cfg_tau cfg))"
    if "discor_step X cfg step rs1 = Inl (e1, rs3)"
    using that by (rule discor_step_Inl_target)
  have D: "target_agent st' = target_agent st"
    if "learn_discor X buffer B g cc ac dc t te up st = Inr st' \<or>
        learn_discor X buffer B g cc ac dc t te up st = Inl (e2, st')"
    using that by (rule learn_discor_target_agent)
  from A B C D show ?thesis
    by (simp only: soft_sync_weights simp_thms) blast
qed

theorem target_agent_schedule_witness:
  "(\<exists>ag' rs rs0 lives.
      discor toy_ext toy_config toy_agent toy_buffer 0 0 0 = Inr (ag', rs) \<and>
      discor_init toy_ext toy_config toy_agent toy_buffer 0 0 0 = Inr rs0 \<and>
      weights (critic1 (target_agent (ls rs0))) = [1] \<and>
      length lives = 1 \<and>
      target_agent (ls rs) =
        foldl (\<lambda>tag ag. soft_sync tag ag (1 / 2)) (target_agent (ls rs0)) lives) \<and>
   (\<exists>rs2. discor_step toy_ext toy_config 0 toy_run = Inr rs2 \<and>
      target_agent (ls rs2) = soft_sync toy_target (agent (ls rs2)) (1 / 2)) \<and>
   (\<exists>rs2. discor_step toy_ext toy_config 1 toy_run = Inr rs2 \<and>
      target_agent (ls rs2) = toy_target) \<and>
   (\<exists>rs3. discor_step toy_ext toy_config_no_eval 0 toy_run = Inl (ZeroDivisionError, rs3) \<and>
      target_agent (ls rs3) = soft_sync toy_target (agent (ls rs3)) (1 / 2)) \<and>
   (\<exists>st'. learn_discor toy_ext toy_buffer 2 (1 / 2) None None None (1 / 2) (- 1) True
            toy_learner = Inr st' \<and> target_agent st' = toy_target) \<and>
   weights (critic1 (soft_sync toy_target toy_agent (1 / 2))) = [1 / 2]"
proof -
  have tau: "cfg_tau toy_config = 1 / 2" and td: "cfg_target_delay toy_config = 2"
    and tau': "cfg_tau toy_config_no_eval = 1 / 2"
    and td': "cfg_target_delay toy_config_no_eval = 2"
    by (simp_all add: toy_config_def toy_config_no_eval_def)
  have tt: "target_agent (ls toy_run) = toy_target"
    by (simp add: toy_run_def toy_learner_def)
  have si: "length (filter (\<lambda>s. s mod cfg_target_delay toy_config = 0) (steps_iter toy_config)) = 1"
    by (simp add: steps_iter_def toy_config_def upt_rec)
  \<comment> \<open>the whole run\<close>
  obtain ag' rs where d: "discor toy_ext toy_config toy_agent toy_buffer 0 0 0 = Inr (ag', rs)"
    using toy_discor by blast
  note w1 = target_agent_schedule[where X = toy_ext and cfg = toy_config and ?ag0.0 = toy_agent
      and buffer = toy_buffer and tr_env = 0 and te_env = 0 and r = 0 and ag' = ag' and rs = rs,
      THEN conjunct1, rule_format, OF d]
  then obtain rs0 lives where
    i: "discor_init toy_ext toy_config toy_agent toy_buffer 0 0 0 = Inr rs0" and
    c: "weights (critic1 (target_agent (ls rs0))) = weights (critic1 toy_agent)" and
    l: "length lives = 1" and
    f: "target_agent (ls rs) =
          foldl (\<lambda>tag ag. soft_sync tag ag (1 / 2)) (target_agent (ls rs0)) lives"
    unfolding si tau by blast
  have c': "weights (critic1 (target_agent (ls rs0))) = [1]"
    using c by (simp add: toy_agent_def toy_module_def)
  have P1: "\<exists>ag' rs rs0 lives.
      discor toy_ext toy_config toy_agent toy_buffer 0 0 0 = Inr (ag', rs) \<and>
      discor_init toy_ext toy_config toy_agent toy_buffer 0 0 0 = Inr rs0 \<and>
      weights (critic1 (target_agent (ls rs0))) = [1] \<and>
      length lives = 1 \<and>
      target_agent (ls rs) =
        foldl (\<lambda>tag ag. soft_sync tag ag (1 / 2)) (target_agent (ls rs0)) lives"
    using d i c' l f by blast
  \<comment> \<open>one iteration with and one without synchronisation\<close>
  obtain ra where a: "discor_step toy_ext toy_config 0 toy_run = Inr ra"
    using toy_discor_step[OF toy_run_kind] by blast
  have "target_agent (ls ra) = soft_sync toy_target (agent (ls ra)) (1 / 2)"
    using target_agent_schedule[where X = toy_ext and cfg = toy_config and step = 0
        and ?rs1.0 = toy_run and ?rs2.0 = ra,
        THEN conjunct2, THEN conjunct1, rule_format, OF a]
    by (simp add: tau td tt)
  with a have P2: "\<exists>rs2. discor_step toy_ext toy_config 0 toy_run = Inr rs2 \<and>
      target_agent (ls rs2) = soft_sync toy_target (agent (ls rs2)) (1 / 2)"
    by blast
  obtain rb where b: "discor_step toy_ext toy_config 1 toy_run = Inr rb"
    using toy_discor_step[OF toy_run_kind] by blast
  have "target_agent (ls rb) = toy_target"
    using target_agent_schedule[where X = toy_ext and cfg = toy_config and step = 1
        and ?rs1.0 = toy_run and ?rs2.0 = rb,
        THEN conjunct2, THEN conjunct1, rule_format, OF b]
    by (simp add: tau td tt)
  with b have P3: "\<exists>rs2. discor_step toy_ext toy_config 1 toy_run = Inr rs2 \<and>
      target_agent (ls rs2) = toy_target"
    by blast
  \<comment> \<open>an iteration that raises after the synchronisation\<close>
  let ?rc = "toy_run\<lparr>ls := toy_learner\<lparr>target_agent := soft_sync toy_target toy_agent (1 / 2)\<rparr>\<rparr>"
  have "target_agent (ls ?rc) = target_agent (ls toy_run) \<or>
        (0 mod cfg_target_delay toy_config_no_eval = 0 \<and>
         target_agent (ls ?rc) =
           soft_sync (target_agent (ls toy_run)) (agent (ls ?rc)) (cfg_tau toy_config_no_eval))"
    using target_agent_schedule[where X = toy_ext and cfg = toy_config_no_eval and step = 0
        and ?rs1.0 = toy_run and ?e1.0 = ZeroDivisionError and ?rs3.0 = ?rc,
        THEN conjunct2, THEN conjunct2, THEN conjunct1, rule_format, OF toy_step_error] .
  have "target_agent (ls ?rc) = soft_sync toy_target (agent (ls ?rc)) (1 / 2)"
    by (simp add: toy_learner_def)
  with toy_step_error
  have P4: "\<exists>rs3. discor_step toy_ext toy_config_no_eval 0 toy_run = Inl (ZeroDivisionError, rs3) \<and>
      target_agent (ls rs3) = soft_sync toy_target (agent (ls rs3)) (1 / 2)"
    by blast
  \<comment> \<open>one update step\<close>
  obtain sa where s: "learn_discor toy_ext toy_buffer 2 (1 / 2) None None None (1 / 2) (- 1)
      True toy_learner = Inr sa"
    using learn_discor_Inr[OF toy_kind] by blast
  have "target_agent sa = toy_target"
    using target_agent_schedule[where X = toy_ext and buffer = toy_buffer and B = 2
        and g = "1 / 2" and cc = None and ac = None and dc = None and t = "1 / 2"
        and te = "- 1" and up = True and st = toy_learner and st' = sa,
        THEN conjunct2, THEN conjunct2, THEN conjunct2, THEN conjunct1, rule_format,
        OF disjI1, OF s]
    by (simp add: toy_learner_def)
  with s have P5: "\<exists>st'. learn_discor toy_ext toy_buffer 2 (1 / 2) None None None (1 / 2) (- 1)
      True toy_learner = Inr st' \<and> target_agent st' = toy_target"
    by blast
  have P6: "weights (critic1 (soft_sync toy_target toy_agent (1 / 2))) = [1 / 2]"
    by (simp add: soft_sync_def soft_update_def toy_target_def toy_agent_def toy_module_def)
  from P1 P2 P3 P4 P5 P6 show ?thesis by blast
qed

section \<open>Actions are clamped (C10)\<close>




end
